theory Spec2Isabelle
  imports Complex_Main "HOL-Library.AList"
begin

section \<open>Values of the rendering library\<close>

text \<open>
  The embedding follows \<^verbatim>\<open>src/js/three-animations.js\<close>. JavaScript numbers are modelled
  as mathematical reals (\<^typ>\<open>real\<close>), counts and handles as \<^typ>\<open>nat\<close>: rounding of
  IEEE doubles is not part of the model. Three.js itself is an external library; of its
  objects the model keeps the attributes that the repository's code sets or reads.
\<close>

datatype vector3 = Vector3 (vx: real) (vy: real) (vz: real)

text \<open>A colour is remembered by the call that set it last: the hexadecimal constructor
  argument, or \<^verbatim>\<open>color.setHSL(h, s, l)\<close>.\<close>

datatype color = Hex nat | HSL real real real

datatype geometry =
    SphereGeometry real nat nat
  | BoxGeometry real real real
  | TorusGeometry real real nat nat
  | OctahedronGeometry real
  | IcosahedronGeometry real nat
  | TetrahedronGeometry real

record material =
  color :: color
  shininess :: nat
  transparent :: bool
  opacity :: real
  materialDisposed :: bool

text \<open>\<^verbatim>\<open>mesh.userData\<close>; its field \<^verbatim>\<open>scale\<close> is named \<open>baseScale\<close> here, apart from
  the mesh's own \<^verbatim>\<open>scale\<close> vector.\<close>

record userData =
  rotationSpeed :: vector3
  floatSpeed :: real
  floatAmount :: real
  originalPosition :: vector3
  baseScale :: real
  pulseSpeed :: real

record mesh =
  geometry :: geometry
  geometryDisposed :: bool
  material :: material
  position :: vector3
  rotation :: vector3
  scale :: vector3
  userData :: userData

datatype light =
    AmbientLight nat real
  | DirectionalLight nat real vector3 bool
  | PointLight nat real nat vector3

text \<open>The scene holds the lights and references to the meshes of \<^verbatim>\<open>this.objects\<close>: a mesh
  reference is the mesh's index in that array, so that the scene and the array share
  the mesh as they do in the source.\<close>

datatype child = Light light | MeshRef nat

record camera =
  aspect :: "nat \<times> nat"
  cameraPosition :: vector3

record renderer =
  rendererSize :: "nat \<times> nat"
  rendererDisposed :: bool
  framesRendered :: nat

text \<open>A line of the console: \<^verbatim>\<open>console.warn\<close> or \<^verbatim>\<open>console.error\<close>.\<close>

datatype log = Warn string | Error string

text \<open>The canvas element found by \<^verbatim>\<open>document.getElementById\<close>. \<open>contextAvailable\<close> says
  whether \<^verbatim>\<open>new THREE.WebGLRenderer\<close> can create a rendering context on it; when it
  cannot, the library throws, and \<open>failureLog\<close> is what it writes to the console before
  it does.\<close>

record canvas =
  elementId :: string
  clientWidth :: nat
  clientHeight :: nat
  contextAvailable :: bool
  failureLog :: "log list"

section \<open>ThreeJSAnimator\<close>

text \<open>
  The fields of a constructed \<^verbatim>\<open>ThreeJSAnimator\<close>, and with them the part of the host that
  belongs to this instance: \<open>frameQueue\<close> lists the handles of the animation-frame
  requests of this instance that the host has neither run nor cancelled, \<open>nextHandle\<close>
  is the handle the host returns next. The camera's aspect is kept as the pair
  (width, height) it is computed from: JavaScript's division by zero is not the
  division of \<^typ>\<open>real\<close>.
\<close>

record binding =
  canvasEl :: canvas
  scene :: "child list"
  camera :: camera
  renderer :: renderer
  color1 :: nat
  color2 :: nat
  objects :: "mesh list"
  animationId :: "nat option"
  isPlaying :: bool
  frameQueue :: "nat list"
  nextHandle :: nat

definition requestAnimationFrame :: "binding \<Rightarrow> nat \<times> binding" where
  "requestAnimationFrame b =
     (nextHandle b,
      b\<lparr>frameQueue := frameQueue b @ [nextHandle b], nextHandle := Suc (nextHandle b)\<rparr>)"

definition cancelAnimationFrame :: "nat \<Rightarrow> binding \<Rightarrow> binding" where
  "cancelAnimationFrame h b = b\<lparr>frameQueue := removeAll h (frameQueue b)\<rparr>"

text \<open>JavaScript's \<^verbatim>\<open>a % n\<close> on numbers: the remainder has the sign of the dividend.\<close>

definition js_trunc :: "real \<Rightarrow> int" where
  "js_trunc r = (if 0 \<le> r then \<lfloor>r\<rfloor> else \<lceil>r\<rceil>)"

definition js_rem :: "real \<Rightarrow> real \<Rightarrow> real" where
  "js_rem a n = a - n * of_int (js_trunc (a / n))"

text \<open>\<^verbatim>\<open>array.forEach((obj, index) => ...)\<close> where the callback mutates \<^verbatim>\<open>obj\<close>.\<close>

fun forEachFrom :: "nat \<Rightarrow> (nat \<Rightarrow> 'a \<Rightarrow> 'a) \<Rightarrow> 'a list \<Rightarrow> 'a list" where
  "forEachFrom i f [] = []"
| "forEachFrom i f (obj # rest) = f i obj # forEachFrom (Suc i) f rest"

definition setupScene :: "child list \<times> camera \<Rightarrow> child list \<times> camera" where
  "setupScene sc =
     (case sc of (children, cam) \<Rightarrow>
        (children @
           [Light (AmbientLight 0xffffff 0.6),
            Light (DirectionalLight 0xffffff 0.8 (Vector3 10 10 5) True),
            Light (PointLight 0xffffff 0.4 100 (Vector3 (-10) (-10) (-5)))],
         cam\<lparr>cameraPosition :=
           Vector3 (vx (cameraPosition cam)) (vy (cameraPosition cam)) 5\<rparr>))"

text \<open>The body of the \<^verbatim>\<open>forEach\<close> callback of \<^verbatim>\<open>animate\<close>, for one object. Its test
  \<^verbatim>\<open>obj.material && obj.material.color\<close> holds for every mesh that the code creates.\<close>

definition animateObject :: "real \<Rightarrow> nat \<Rightarrow> mesh \<Rightarrow> mesh" where
  "animateObject time index obj =
     (let ud = userData obj;
          rot = Vector3 (vx (rotation obj) + vx (rotationSpeed ud))
                        (vy (rotation obj) + vy (rotationSpeed ud))
                        (vz (rotation obj) + vz (rotationSpeed ud));
          floatOffset = sin (time * floatSpeed ud + real index) * floatAmount ud * 0.1;
          pos = Vector3 (vx (position obj)) (vy (originalPosition ud) + floatOffset)
                        (vz (position obj));
          pulse = 1 + sin (time * pulseSpeed ud + real index) * 0.1;
          s = baseScale ud * pulse;
          hue = js_rem (time * 0.1 + real index * 0.1) 1
      in obj\<lparr>rotation := rot, position := pos, scale := Vector3 s s s,
              material := (material obj)\<lparr>color := HSL hue 0.7 0.6\<rparr>\<rparr>)"

text \<open>\<^verbatim>\<open>animate()\<close>; \<open>now\<close> is what \<^verbatim>\<open>Date.now()\<close> returns during the call, in
  milliseconds.\<close>

definition animate :: "nat \<Rightarrow> binding \<Rightarrow> binding" where
  "animate now b =
     (if \<not> isPlaying b then b
      else
        (case requestAnimationFrame b of (h, b1) \<Rightarrow>
           (let b2 = b1\<lparr>animationId := Some h\<rparr>;
                time = real now * 0.001;
                objs = forEachFrom 0 (animateObject time) (objects b2);
                cam = (camera b2)\<lparr>cameraPosition :=
                        Vector3 (sin (time * 0.1) * 0.5) (cos (time * 0.15) * 0.3)
                                (vz (cameraPosition (camera b2)))\<rparr>;
                r = (renderer b2)\<lparr>framesRendered := Suc (framesRendered (renderer b2))\<rparr>
            in b2\<lparr>objects := objs, camera := cam, renderer := r\<rparr>)))"

text \<open>\<^verbatim>\<open>handleResize()\<close>; its guard on canvas, camera and renderer holds on every
  constructed instance.\<close>

definition handleResize :: "binding \<Rightarrow> binding" where
  "handleResize b =
     (let width = clientWidth (canvasEl b); height = clientHeight (canvasEl b)
      in b\<lparr>camera := (camera b)\<lparr>aspect := (width, height)\<rparr>,
           renderer := (renderer b)\<lparr>rendererSize := (width, height)\<rparr>\<rparr>)"

definition play :: "nat \<Rightarrow> binding \<Rightarrow> binding" where
  "play now b = (if \<not> isPlaying b then animate now (b\<lparr>isPlaying := True\<rparr>) else b)"

text \<open>\<^verbatim>\<open>if (this.animationId)\<close> is JavaScript truthiness: neither \<^verbatim>\<open>null\<close> nor 0.\<close>

definition pause :: "binding \<Rightarrow> binding" where
  "pause b =
     (let b1 = b\<lparr>isPlaying := False\<rparr>
      in case animationId b1 of
           None \<Rightarrow> b1
         | Some h \<Rightarrow> if h \<noteq> 0 then cancelAnimationFrame h b1 else b1)"

definition disposeObject :: "mesh \<Rightarrow> mesh" where
  "disposeObject obj =
     obj\<lparr>geometryDisposed := True, material := (material obj)\<lparr>materialDisposed := True\<rparr>\<rparr>"

definition isMeshRef :: "child \<Rightarrow> bool" where
  "isMeshRef c = (case c of MeshRef i \<Rightarrow> True | Light l \<Rightarrow> False)"

text \<open>\<^verbatim>\<open>dispose()\<close>: the disposed meshes leave the scene and the array; the renderer is an
  external object of which the model keeps whether \<^verbatim>\<open>dispose()\<close> was called on it.\<close>

definition dispose :: "binding \<Rightarrow> binding" where
  "dispose b =
     (let b1 = pause b;
          released = map disposeObject (objects b1);
          children = filter (\<lambda>c. \<not> isMeshRef c) (scene b1);
          r = (renderer b1)\<lparr>rendererDisposed := True\<rparr>
      in b1\<lparr>scene := children, renderer := r, objects := []\<rparr>)"


subsection \<open>Construction\<close>

datatype js_error = ContextCreationFailed | TypeError

text \<open>What \<^verbatim>\<open>new ThreeJSAnimator(...)\<close> evaluates to when it does not throw: the early
  \<^verbatim>\<open>return\<close> of the constructor leaves an instance whose \<^verbatim>\<open>canvas\<close> is \<^verbatim>\<open>null\<close> and
  that has no other field (\<open>Unbound\<close>); otherwise the instance is fully set up.\<close>

datatype animator = Unbound | Bound binding

definition canvasOf :: "animator \<Rightarrow> canvas option" where
  "canvasOf a = (case a of Unbound \<Rightarrow> None | Bound b \<Rightarrow> Some (canvasEl b))"

definition notFoundMessage :: "string \<Rightarrow> string" where
  "notFoundMessage canvasId =
     ''Canvas with id '' @ [CHR 0x27] @ canvasId @ [CHR 0x27] @ '' not found''"

definition setupSceneOf :: "binding \<Rightarrow> binding" where
  "setupSceneOf b =
     (case setupScene (scene b, camera b) of (children, cam) \<Rightarrow>
        b\<lparr>scene := children, camera := cam\<rparr>)"

text \<open>The constructor. \<open>doc\<close> is the document (element ids to canvases), \<open>now\<close> the clock
  read by the first \<^verbatim>\<open>animate()\<close>; an omitted colour argument (\<open>None\<close>) takes the
  default of the parameter list. The result is the console output and either the
  exception thrown or the instance. \<^verbatim>\<open>setupEventListeners()\<close> registers the handlers
  \<open>onResize\<close>, \<open>onVisibilityChange\<close> and \<open>onIntersection\<close> below and changes no field.\<close>

definition ThreeJSAnimator ::
  "(string \<rightharpoonup> canvas) \<Rightarrow> nat \<Rightarrow> string \<Rightarrow> nat option \<Rightarrow> nat option
     \<Rightarrow> log list \<times> (js_error + animator)" where
  "ThreeJSAnimator doc now canvasId c1 c2 =
     (case doc canvasId of
        None \<Rightarrow> ([Warn (notFoundMessage canvasId)], Inr Unbound)
      | Some cv \<Rightarrow>
          if \<not> contextAvailable cv then (failureLog cv, Inl ContextCreationFailed)
          else
            (let b0 = \<lparr>canvasEl = cv,
                       scene = [],
                       camera = \<lparr>aspect = (clientWidth cv, clientHeight cv),
                                 cameraPosition = Vector3 0 0 0\<rparr>,
                       renderer = \<lparr>rendererSize = (clientWidth cv, clientHeight cv),
                                   rendererDisposed = False, framesRendered = 0\<rparr>,
                       color1 = (case c1 of None \<Rightarrow> 0x00FFFF | Some c \<Rightarrow> c),
                       color2 = (case c2 of None \<Rightarrow> 0xFF00FF | Some c \<Rightarrow> c),
                       objects = [],
                       animationId = None,
                       isPlaying = True,
                       frameQueue = [],
                       nextHandle = 1\<rparr>
             in ([], Inr (Bound (animate now (setupSceneOf b0))))))"

subsection \<open>Creating objects\<close>

text \<open>The \<^verbatim>\<open>options\<close> argument (a key that is absent is \<open>None\<close>) and the merged
  \<^verbatim>\<open>config\<close>.\<close>

record options =
  size_o :: "real option"
  segments_o :: "nat option"
  detail_o :: "nat option"

record config =
  size_c :: real
  segments_c :: nat
  detail_c :: nat

definition noOptions :: options where
  "noOptions = \<lparr>size_o = None, segments_o = None, detail_o = None\<rparr>"

definition mergeConfig :: "options \<Rightarrow> config" where
  "mergeConfig opts =
     \<lparr>size_c = (case size_o opts of None \<Rightarrow> 0.8 | Some s \<Rightarrow> s),
      segments_c = (case segments_o opts of None \<Rightarrow> 32 | Some n \<Rightarrow> n),
      detail_c = (case detail_o opts of None \<Rightarrow> 0 | Some d \<Rightarrow> d)\<rparr>"

text \<open>The \<^verbatim>\<open>switch(type)\<close>.\<close>

definition chooseGeometry :: "string \<Rightarrow> config \<Rightarrow> geometry" where
  "chooseGeometry type cfg =
     (if type = ''sphere'' then SphereGeometry (size_c cfg) (segments_c cfg) (segments_c cfg)
      else if type = ''cube'' then BoxGeometry (size_c cfg) (size_c cfg) (size_c cfg)
      else if type = ''torus'' then TorusGeometry (size_c cfg * 0.7) (size_c cfg * 0.3) 16 100
      else if type = ''octahedron'' then OctahedronGeometry (size_c cfg)
      else if type = ''icosahedron'' then IcosahedronGeometry (size_c cfg) (detail_c cfg)
      else if type = ''tetrahedron'' then TetrahedronGeometry (size_c cfg)
      else SphereGeometry (size_c cfg) (segments_c cfg) (segments_c cfg))"

text \<open>The mesh built by \<^verbatim>\<open>createFloatingGeometry\<close>. \<open>rnd i\<close> is the result of the
  \<open>i\<close>-th call of \<^verbatim>\<open>Math.random()\<close> during the call, in evaluation order: colour;
  position x, y, z; rotation x, y, z; rotation speed x, y, z; float speed; float
  amount; pulse speed. A new mesh has scale (1, 1, 1).\<close>

definition newMesh :: "nat \<Rightarrow> nat \<Rightarrow> string \<Rightarrow> options \<Rightarrow> (nat \<Rightarrow> real) \<Rightarrow> mesh" where
  "newMesh c1 c2 type opts rnd =
     (let cfg = mergeConfig opts;
          pos = Vector3 ((rnd 1 - 0.5) * 6) ((rnd 2 - 0.5) * 6) ((rnd 3 - 0.5) * 3)
      in \<lparr>geometry = chooseGeometry type cfg,
          geometryDisposed = False,
          material = \<lparr>color = Hex (if rnd 0 > 0.5 then c1 else c2),
                       shininess = 100, transparent = True, opacity = 0.8,
                       materialDisposed = False\<rparr>,
          position = pos,
          rotation = Vector3 (rnd 4 * pi * 2) (rnd 5 * pi * 2) (rnd 6 * pi * 2),
          scale = Vector3 1 1 1,
          userData =
            \<lparr>rotationSpeed = Vector3 ((rnd 7 - 0.5) * 0.02) ((rnd 8 - 0.5) * 0.02)
                                     ((rnd 9 - 0.5) * 0.02),
             floatSpeed = rnd 10 * 0.01 + 0.005,
             floatAmount = rnd 11 * 0.5 + 0.2,
             originalPosition = pos,
             baseScale = size_c cfg,
             pulseSpeed = rnd 12 * 0.02 + 0.01\<rparr>\<rparr>)"

text \<open>\<^verbatim>\<open>createFloatingGeometry(type = 'sphere', options = {})\<close>: an omitted or
  \<^verbatim>\<open>undefined\<close> argument is \<open>None\<close>. It returns the mesh and the updated instance.\<close>

definition createFloatingGeometry ::
  "string option \<Rightarrow> options option \<Rightarrow> (nat \<Rightarrow> real) \<Rightarrow> binding \<Rightarrow> mesh \<times> binding" where
  "createFloatingGeometry type opts rnd b =
     (let m = newMesh (color1 b) (color2 b)
                (case type of None \<Rightarrow> ''sphere'' | Some t \<Rightarrow> t)
                (case opts of None \<Rightarrow> noOptions | Some o' \<Rightarrow> o') rnd
      in (m, b\<lparr>scene := scene b @ [MeshRef (length (objects b))],
                objects := objects b @ [m]\<rparr>))"

text \<open>\<^verbatim>\<open>array[i]\<close> for a number \<open>i\<close> that is an integer: \<^verbatim>\<open>undefined\<close> out of range.\<close>

definition arrayGet :: "'a list \<Rightarrow> int \<Rightarrow> 'a option" where
  "arrayGet xs i = (if 0 \<le> i \<and> nat i < length xs then Some (xs ! nat i) else None)"

definition shapeTypes :: "string list" where
  "shapeTypes = [''sphere'', ''cube'', ''torus'', ''octahedron'', ''icosahedron'', ''tetrahedron'']"

text \<open>\<^verbatim>\<open>addRandomObjects(count)\<close>: each round draws the type, the size and the thirteen
  numbers of \<^verbatim>\<open>createFloatingGeometry\<close>, fifteen in all.\<close>

fun addRandomObjects :: "nat \<Rightarrow> (nat \<Rightarrow> real) \<Rightarrow> binding \<Rightarrow> binding" where
  "addRandomObjects 0 rnd b = b"
| "addRandomObjects (Suc n) rnd b =
     (let type = arrayGet shapeTypes \<lfloor>rnd 0 * real (length shapeTypes)\<rfloor>;
          size = rnd 1 * 0.5 + 0.5
      in addRandomObjects n (\<lambda>i. rnd (i + 15))
           (snd (createFloatingGeometry type
                   (Some \<lparr>size_o = Some size, segments_o = None, detail_o = None\<rparr>)
                   (\<lambda>i. rnd (i + 2)) b)))"

subsection \<open>Event listeners\<close>

text \<open>The three callbacks registered by \<^verbatim>\<open>setupEventListeners()\<close>. The resize observer
  calls \<^verbatim>\<open>handleResize()\<close> once per entry; the visibility listener reads
  \<^verbatim>\<open>document.hidden\<close>; the intersection observer (threshold 0.1) looks at each entry's
  target and \<^verbatim>\<open>isIntersecting\<close>.\<close>

definition intersectionThreshold :: real where
  "intersectionThreshold = 0.1"

definition onResize :: "nat \<Rightarrow> binding \<Rightarrow> binding" where
  "onResize entries b = (handleResize ^^ entries) b"

definition onVisibilityChange :: "bool \<Rightarrow> nat \<Rightarrow> binding \<Rightarrow> binding" where
  "onVisibilityChange hidden now b = (if hidden then pause b else play now b)"

fun onIntersection :: "(string \<times> bool) list \<Rightarrow> nat \<Rightarrow> binding \<Rightarrow> binding" where
  "onIntersection [] now b = b"
| "onIntersection ((target, isIntersecting) # entries) now b =
     onIntersection entries now
       (if target = elementId (canvasEl b)
        then (if isIntersecting then play now b else pause b)
        else b)"

subsection \<open>The life of one instance\<close>

text \<open>What can happen to a constructed instance: the host runs a pending frame request,
  one of the listeners fires, or a method is called. The host runs only requests that
  are pending, and a request it runs is pending no more.\<close>

datatype event =
    FrameCallback nat nat
  | Play nat
  | Pause
  | Dispose
  | VisibilityChange bool nat
  | Intersection "(string \<times> bool) list" nat
  | Resized nat nat
  | CreateFloatingGeometry "string option" "options option" "nat \<Rightarrow> real"
  | AddRandomObjects nat "nat \<Rightarrow> real"

fun step :: "event \<Rightarrow> binding \<Rightarrow> binding" where
  "step (FrameCallback h now) b =
     (if h \<in> set (frameQueue b)
      then animate now (b\<lparr>frameQueue := removeAll h (frameQueue b)\<rparr>)
      else b)"
| "step (Play now) b = play now b"
| "step Pause b = pause b"
| "step Dispose b = dispose b"
| "step (VisibilityChange hidden now) b = onVisibilityChange hidden now b"
| "step (Intersection entries now) b = onIntersection entries now b"
| "step (Resized w h) b =
     onResize 1 (b\<lparr>canvasEl := (canvasEl b)\<lparr>clientWidth := w, clientHeight := h\<rparr>\<rparr>)"
| "step (CreateFloatingGeometry type opts rnd) b = snd (createFloatingGeometry type opts rnd b)"
| "step (AddRandomObjects n rnd) b = addRandomObjects n rnd b"

fun run :: "event list \<Rightarrow> binding \<Rightarrow> binding" where
  "run [] b = b"
| "run (e # es) b = run es (step e b)"

section \<open>AnimationManager\<close>

text \<open>
  Of the manager the model has the registry, the card configurations,
  \<^verbatim>\<open>initCardAnimations()\<close> with the timers it starts, \<^verbatim>\<open>pauseAll()\<close>, \<^verbatim>\<open>playAll()\<close> and
  \<^verbatim>\<open>dispose()\<close>. The hero instance of \<^verbatim>\<open>init()\<close> is one more registry entry; the
  properties below hold for any registry.
\<close>

text \<open>
  One entry of \<^verbatim>\<open>cardConfigs\<close>; \<open>cardId\<close> is its \<^verbatim>\<open>id\<close>, \<open>colors\<close> its array of two
  colours.
\<close>

record cardConfig =
  cardId :: string
  colors :: "nat \<times> nat"

definition cardConfigs :: "cardConfig list" where
  "cardConfigs =
     [\<lparr>cardId = ''about-canvas-1'', colors = (0x00FFFF, 0x6600CC)\<rparr>,
      \<lparr>cardId = ''about-canvas-2'', colors = (0xFF00FF, 0x00CC66)\<rparr>,
      \<lparr>cardId = ''about-canvas-3'', colors = (0xFFFF00, 0xFF6600)\<rparr>,
      \<lparr>cardId = ''services-canvas-1'', colors = (0x00CC66, 0x00FFFF)\<rparr>,
      \<lparr>cardId = ''services-canvas-2'', colors = (0xFF6600, 0xFF00FF)\<rparr>,
      \<lparr>cardId = ''services-canvas-3'', colors = (0x6600CC, 0xFFFF00)\<rparr>,
      \<lparr>cardId = ''services-canvas-4'', colors = (0x00FFFF, 0xFF6600)\<rparr>,
      \<lparr>cardId = ''collections-canvas-1'', colors = (0xFF00FF, 0x00CC66)\<rparr>,
      \<lparr>cardId = ''collections-canvas-2'', colors = (0xFFFF00, 0x6600CC)\<rparr>,
      \<lparr>cardId = ''collections-canvas-3'', colors = (0x00FFFF, 0xFF00FF)\<rparr>,
      \<lparr>cardId = ''testimonials-canvas-1'', colors = (0x00CC66, 0xFFFF00)\<rparr>,
      \<lparr>cardId = ''testimonials-canvas-2'', colors = (0xFF6600, 0x00FFFF)\<rparr>,
      \<lparr>cardId = ''testimonials-canvas-3'', colors = (0x6600CC, 0xFF00FF)\<rparr>,
      \<lparr>cardId = ''events-canvas-1'', colors = (0x00FFFF, 0x00CC66)\<rparr>,
      \<lparr>cardId = ''events-canvas-2'', colors = (0xFF00FF, 0xFFFF00)\<rparr>,
      \<lparr>cardId = ''faq-canvas-1'', colors = (0xFFFF00, 0x6600CC)\<rparr>,
      \<lparr>cardId = ''faq-canvas-2'', colors = (0x00CC66, 0xFF6600)\<rparr>,
      \<lparr>cardId = ''careers-canvas-1'', colors = (0xFF6600, 0x00FFFF)\<rparr>,
      \<lparr>cardId = ''careers-canvas-2'', colors = (0x6600CC, 0x00CC66)\<rparr>,
      \<lparr>cardId = ''contact-canvas-1'', colors = (0x00FFFF, 0xFF00FF)\<rparr>,
      \<lparr>cardId = ''contact-canvas-2'', colors = (0xFFFF00, 0xFF6600)\<rparr>]"

text \<open>The callback that \<^verbatim>\<open>initCardAnimations\<close> hands to \<^verbatim>\<open>setTimeout\<close>, with the
  configuration it closes over.\<close>

datatype task = CreateCard cardConfig

text \<open>
  The host as the manager uses it: the document, the console, the clock in
  milliseconds, the timers that are pending (due time and callback, in the order in
  which they will fire), and the numbers that \<^verbatim>\<open>Math.random()\<close> will return next.
\<close>

record host =
  document :: "string \<rightharpoonup> canvas"
  console :: "log list"
  clock :: nat
  timers :: "(nat \<times> task) list"
  random :: "nat \<Rightarrow> real"

text \<open>The manager: \<^verbatim>\<open>animators\<close> is a JavaScript \<^verbatim>\<open>Map\<close>, kept as an association list in
  insertion order; \<^verbatim>\<open>Map.set\<close> is \<^const>\<open>AList.update\<close>.\<close>

record manager =
  animators :: "(string \<times> binding) list"
  configs :: "cardConfig list"

definition newManager :: manager where
  "newManager = \<lparr>animators = [], configs = cardConfigs\<rparr>"

text \<open>\<^verbatim>\<open>setTimeout(callback, delay)\<close>: the timer fires after those already due at the same
  time or earlier.\<close>

fun enqueue :: "nat \<times> task \<Rightarrow> (nat \<times> task) list \<Rightarrow> (nat \<times> task) list" where
  "enqueue t [] = [t]"
| "enqueue t (u # us) = (if fst t < fst u then t # u # us else u # enqueue t us)"

definition setTimeout :: "task \<Rightarrow> nat \<Rightarrow> host \<Rightarrow> host" where
  "setTimeout callback delay h = h\<lparr>timers := enqueue (clock h + delay, callback) (timers h)\<rparr>"

text \<open>\<^verbatim>\<open>initCardAnimations()\<close>: one timer per configuration, \<open>index * 50\<close> milliseconds
  from now.\<close>

fun scheduleCards :: "nat \<Rightarrow> cardConfig list \<Rightarrow> host \<Rightarrow> host" where
  "scheduleCards index [] h = h"
| "scheduleCards index (c # cs) h =
     scheduleCards (Suc index) cs (setTimeout (CreateCard c) (index * 50) h)"

definition initCardAnimations :: "manager \<times> host \<Rightarrow> manager \<times> host" where
  "initCardAnimations s = (case s of (m, h) \<Rightarrow> (m, scheduleCards 0 (configs m) h))"

definition failedMessage :: "string \<Rightarrow> string" where
  "failedMessage canvasId = ''Failed to initialize animation for '' @ canvasId @ '':''"

text \<open>The body of the timer callback: the \<^verbatim>\<open>try\<close> block and its \<^verbatim>\<open>catch\<close>. An instance
  without canvas is dropped; \<^verbatim>\<open>addRandomObjects(3)\<close> uses up 45 random numbers.\<close>

definition createCard :: "cardConfig \<Rightarrow> manager \<times> host \<Rightarrow> manager \<times> host" where
  "createCard config s =
     (case s of (m, h) \<Rightarrow>
        (case ThreeJSAnimator (document h) (clock h) (cardId config)
                (Some (fst (colors config))) (Some (snd (colors config))) of
           (out, Inl err) \<Rightarrow>
             (m, h\<lparr>console := console h @ out @ [Error (failedMessage (cardId config))]\<rparr>)
         | (out, Inr Unbound) \<Rightarrow> (m, h\<lparr>console := console h @ out\<rparr>)
         | (out, Inr (Bound b)) \<Rightarrow>
             (m\<lparr>animators :=
                  AList.update (cardId config) (addRandomObjects 3 (random h) b) (animators m)\<rparr>,
              h\<lparr>console := console h @ out, random := (\<lambda>i. random h (i + 45))\<rparr>)))"

definition runTask :: "task \<Rightarrow> manager \<times> host \<Rightarrow> manager \<times> host" where
  "runTask t s = (case t of CreateCard config \<Rightarrow> createCard config s)"

text \<open>The host fires the timer that is due first, at its due time or later.\<close>

definition fireNext :: "manager \<times> host \<Rightarrow> manager \<times> host" where
  "fireNext s =
     (case s of (m, h) \<Rightarrow>
        (case timers h of
           [] \<Rightarrow> s
         | (due, callback) # rest \<Rightarrow>
             runTask callback (m, h\<lparr>timers := rest, clock := max (clock h) due\<rparr>)))"

text \<open>All pending timers fire, one after the other.\<close>

definition drain :: "manager \<times> host \<Rightarrow> manager \<times> host" where
  "drain s = (fireNext ^^ length (timers (snd s))) s"

definition pauseAll :: "manager \<Rightarrow> manager" where
  "pauseAll m = m\<lparr>animators := map (\<lambda>(k, a). (k, pause a)) (animators m)\<rparr>"

definition playAll :: "nat \<Rightarrow> manager \<Rightarrow> manager" where
  "playAll now m = m\<lparr>animators := map (\<lambda>(k, a). (k, play now a)) (animators m)\<rparr>"

text \<open>\<^verbatim>\<open>AnimationManager.dispose()\<close>: every registered instance is disposed, then the map
  is cleared. The result is the disposed instances, which the manager no longer
  holds, and the manager. The method has no access to the timers.\<close>

definition managerDispose :: "manager \<Rightarrow> binding list \<times> manager" where
  "managerDispose m = (map (\<lambda>(k, a). dispose a) (animators m), m\<lparr>animators := []\<rparr>)"

definition disposePool :: "manager \<times> host \<Rightarrow> manager \<times> host" where
  "disposePool s = (case s of (m, h) \<Rightarrow> (snd (managerDispose m), h))"

section \<open>Auxiliary definitions for the properties\<close>

text \<open>The frame-request invariant: the pending requests of an instance are exactly the one
  named by \<^verbatim>\<open>animationId\<close> while it plays, and none while it does not; handles are
  positive, so that the truthiness test of \<^verbatim>\<open>pause()\<close> finds them.\<close>

definition frameInv :: "binding \<Rightarrow> bool" where
  "frameInv b =
     (0 < nextHandle b \<and>
      (case animationId b of
         None \<Rightarrow> frameQueue b = []
       | Some h \<Rightarrow> 0 < h \<and> frameQueue b = (if isPlaying b then [h] else [])))"

text \<open>The instance the constructor leaves when it neither throws nor returns early.\<close>

definition constructed ::
  "(string \<rightharpoonup> canvas) \<Rightarrow> nat \<Rightarrow> string \<Rightarrow> nat option \<Rightarrow> nat option \<Rightarrow> binding option" where
  "constructed doc now canvasId c1 c2 =
     (case snd (ThreeJSAnimator doc now canvasId c1 c2) of
        Inr (Bound b) \<Rightarrow> Some b
      | _ \<Rightarrow> None)"

text \<open>A document with one canvas, and an instance on it that owns one cube, created with
  every random number equal to 3/4.\<close>

definition demoCanvas :: canvas where
  "demoCanvas = \<lparr>elementId = ''about-canvas-1'', clientWidth = 300, clientHeight = 150,
                  contextAvailable = True, failureLog = []\<rparr>"

definition demoDocument :: "string \<rightharpoonup> canvas" where
  "demoDocument = [''about-canvas-1'' \<mapsto> demoCanvas]"

definition demoBinding :: binding where
  "demoBinding =
     snd (createFloatingGeometry (Some ''cube'') None (\<lambda>i. 3 / 4)
            (the (constructed demoDocument 0 ''about-canvas-1'' (Some 0x00FFFF) (Some 0x6600CC))))"

text \<open>Forgetting the palette: the two configured colours of an instance and the colour of
  every material.\<close>

definition eraseObject :: "mesh \<Rightarrow> mesh" where
  "eraseObject obj = obj\<lparr>material := (material obj)\<lparr>color := Hex 0\<rparr>\<rparr>"

definition erasePalette :: "binding \<Rightarrow> binding" where
  "erasePalette b = b\<lparr>color1 := 0, color2 := 0, objects := map eraseObject (objects b)\<rparr>"

text \<open>The Three.js class of a geometry.\<close>

definition primitiveOf :: "geometry \<Rightarrow> string" where
  "primitiveOf g =
     (case g of
        SphereGeometry r w h \<Rightarrow> ''SphereGeometry''
      | BoxGeometry w h d \<Rightarrow> ''BoxGeometry''
      | TorusGeometry r t rs ts \<Rightarrow> ''TorusGeometry''
      | OctahedronGeometry r \<Rightarrow> ''OctahedronGeometry''
      | IcosahedronGeometry r d \<Rightarrow> ''IcosahedronGeometry''
      | TetrahedronGeometry r \<Rightarrow> ''TetrahedronGeometry'')"

text \<open>
  The two visibility sources of an instance, as the host knows them: whether the
  document is hidden, and whether the canvas intersects the viewport by at least the
  observer's threshold, which is what the host reports as \<^verbatim>\<open>isIntersecting\<close>. A
  notification updates the source and runs the listener of the instance.
\<close>

record page =
  documentHidden :: bool
  intersecting :: bool
  animatorOf :: binding

datatype notification = DocumentVisibility bool nat | ElementIntersection bool nat

fun reportsVisible :: "notification \<Rightarrow> bool" where
  "reportsVisible (DocumentVisibility hidden now) = (\<not> hidden)"
| "reportsVisible (ElementIntersection isIntersecting now) = isIntersecting"

fun deliver :: "notification \<Rightarrow> page \<Rightarrow> page" where
  "deliver (DocumentVisibility hidden now) p =
     p\<lparr>documentHidden := hidden,
       animatorOf := onVisibilityChange hidden now (animatorOf p)\<rparr>"
| "deliver (ElementIntersection isIntersecting now) p =
     p\<lparr>intersecting := isIntersecting,
       animatorOf :=
         onIntersection [(elementId (canvasEl (animatorOf p)), isIntersecting)] now
           (animatorOf p)\<rparr>"

fun deliverAll :: "notification list \<Rightarrow> page \<Rightarrow> page" where
  "deliverAll [] p = p"
| "deliverAll (n # ns) p = deliverAll ns (deliver n p)"

text \<open>The demonstration instance, visible by both sources.\<close>

definition demoPage :: page where
  "demoPage = \<lparr>documentHidden = False, intersecting = True, animatorOf = demoBinding\<rparr>"

text \<open>A host whose document has the one demonstration canvas.\<close>

definition demoHost :: host where
  "demoHost = \<lparr>document = demoDocument, console = [], clock = 0, timers = [],
                random = (\<lambda>i. 3 / 4)\<rparr>"

text \<open>
  What the card timers do, said without the timers. A canvas id is usable when the
  document has the canvas and a rendering context can be created on it; \<open>cardLog\<close> is
  what one card callback writes to the console; \<open>cardsFrom\<close> is the registry after the
  given timers have fired in order, starting at clock \<open>t\<close> with the random numbers
  \<open>rnd\<close>: each usable card is constructed at the time its timer fires, gets three
  random objects and is registered under its id.
\<close>

definition usable :: "(string \<rightharpoonup> canvas) \<Rightarrow> string \<Rightarrow> bool" where
  "usable doc k = (case doc k of None \<Rightarrow> False | Some cv \<Rightarrow> contextAvailable cv)"

definition cardLog :: "(string \<rightharpoonup> canvas) \<Rightarrow> cardConfig \<Rightarrow> log list" where
  "cardLog doc c =
     (case doc (cardId c) of
        None \<Rightarrow> [Warn (notFoundMessage (cardId c))]
      | Some cv \<Rightarrow>
          if contextAvailable cv then []
          else failureLog cv @ [Error (failedMessage (cardId c))])"

definition taskConfig :: "task \<Rightarrow> cardConfig" where
  "taskConfig t = (case t of CreateCard c \<Rightarrow> c)"

text \<open>The id of the card of a pending timer; a canvas that exists and cannot get a
  rendering context.\<close>

definition taskId :: "nat \<times> task \<Rightarrow> string" where
  "taskId dt = cardId (taskConfig (snd dt))"

definition contextFails :: "(string \<rightharpoonup> canvas) \<Rightarrow> string \<Rightarrow> bool" where
  "contextFails doc k = (case doc k of None \<Rightarrow> False | Some cv \<Rightarrow> \<not> contextAvailable cv)"

fun cardsFrom ::
  "(string \<rightharpoonup> canvas) \<Rightarrow> nat \<Rightarrow> (nat \<Rightarrow> real) \<Rightarrow> (nat \<times> task) list
     \<Rightarrow> (string \<times> binding) list \<Rightarrow> (string \<times> binding) list" where
  "cardsFrom doc t rnd [] reg = reg"
| "cardsFrom doc t rnd ((due, CreateCard c) # ts) reg =
     (case constructed doc (max t due) (cardId c)
             (Some (fst (colors c))) (Some (snd (colors c))) of
        None \<Rightarrow> cardsFrom doc (max t due) rnd ts reg
      | Some b \<Rightarrow>
          cardsFrom doc (max t due) (\<lambda>i. rnd (i + 45)) ts
            (AList.update (cardId c) (addRandomObjects 3 rnd b) reg))"

text \<open>An instance as a card callback registers it: constructed on the canvas, playing,
  with three objects, its first frame rendered and its first frame request pending.\<close>

definition liveCard :: "canvas \<Rightarrow> binding \<Rightarrow> bool" where
  "liveCard cv b =
     (canvasEl b = cv \<and> isPlaying b \<and> length (objects b) = 3 \<and>
      animationId b = Some 1 \<and> frameQueue b = [1] \<and> nextHandle b = 2 \<and>
      framesRendered (renderer b) = 1 \<and> \<not> rendererDisposed (renderer b))"

text \<open>A canvas without rendering context, a host that has only this canvas, and a host
  that has it beside the demonstration canvas.\<close>

definition brokenCanvas :: canvas where
  "brokenCanvas = \<lparr>elementId = ''about-canvas-2'', clientWidth = 300, clientHeight = 150,
                    contextAvailable = False,
                    failureLog = [Error ''THREE.WebGLRenderer: Error creating WebGL context.'']\<rparr>"

definition brokenHost :: host where
  "brokenHost = demoHost\<lparr>document := [''about-canvas-2'' \<mapsto> brokenCanvas]\<rparr>"

definition mixedHost :: host where
  "mixedHost = demoHost\<lparr>document := demoDocument(''about-canvas-2'' \<mapsto> brokenCanvas)\<rparr>"

text \<open>A host with the first and the third card canvas, and the manager on it after the
  first card timer has fired.\<close>

definition thirdCanvas :: canvas where
  "thirdCanvas = \<lparr>elementId = ''about-canvas-3'', clientWidth = 300, clientHeight = 150,
                   contextAvailable = True, failureLog = []\<rparr>"

definition twoCanvasHost :: host where
  "twoCanvasHost = demoHost\<lparr>document := demoDocument(''about-canvas-3'' \<mapsto> thirdCanvas)\<rparr>"

definition runningPool :: "manager \<times> host" where
  "runningPool = fireNext (initCardAnimations (newManager, twoCanvasHost))"

section \<open>Properties\<close>

subsection \<open>Frame requests\<close>

lemma animate_fields [simp]:
  "isPlaying (animate now b) = isPlaying b"
  "color1 (animate now b) = color1 b"
  "color2 (animate now b) = color2 b"
  "canvasEl (animate now b) = canvasEl b"
  "scene (animate now b) = scene b"
  by (simp_all add: animate_def requestAnimationFrame_def Let_def split: prod.splits)

lemma animate_queue:
  "isPlaying b \<Longrightarrow> frameQueue (animate now b) = frameQueue b @ [nextHandle b]"
  "isPlaying b \<Longrightarrow> animationId (animate now b) = Some (nextHandle b)"
  "isPlaying b \<Longrightarrow> nextHandle (animate now b) = Suc (nextHandle b)"
  by (simp_all add: animate_def requestAnimationFrame_def Let_def)

lemma animate_frameInv:
  "isPlaying b \<Longrightarrow> frameQueue b = [] \<Longrightarrow> 0 < nextHandle b \<Longrightarrow> frameInv (animate now b)"
  by (simp add: frameInv_def animate_queue)

lemma pause_frameInv: "frameInv b \<Longrightarrow> frameInv (pause b)"
  by (auto simp: frameInv_def pause_def cancelAnimationFrame_def Let_def split: option.splits if_splits)

lemma pause_fields [simp]:
  "isPlaying (pause b) = False"
  "objects (pause b) = objects b"
  "nextHandle (pause b) = nextHandle b"
  "animationId (pause b) = animationId b"
  "scene (pause b) = scene b" "renderer (pause b) = renderer b" "camera (pause b) = camera b"
  "canvasEl (pause b) = canvasEl b" "color1 (pause b) = color1 b" "color2 (pause b) = color2 b"
  by (simp_all add: pause_def cancelAnimationFrame_def Let_def split: option.splits)

lemma frameInv_paused: "frameInv b \<Longrightarrow> \<not> isPlaying b \<Longrightarrow> frameQueue b = []"
  by (auto simp: frameInv_def split: option.splits)

lemma play_frameInv: "frameInv b \<Longrightarrow> frameInv (play now b)"
  by (auto simp: play_def frameInv_def[of b] intro!: animate_frameInv split: option.splits)

lemma frameInv_cong:
  "nextHandle b' = nextHandle b \<Longrightarrow> animationId b' = animationId b \<Longrightarrow>
   frameQueue b' = frameQueue b \<Longrightarrow> isPlaying b' = isPlaying b \<Longrightarrow> frameInv b' = frameInv b"
  by (simp add: frameInv_def cong: option.case_cong)

lemma dispose_frameInv:
  assumes "frameInv b"
  shows "frameInv (dispose b)"
proof -
  have "frameInv (dispose b) = frameInv (pause b)"
    by (rule frameInv_cong) (simp_all add: dispose_def Let_def)
  then show ?thesis
    using pause_frameInv [OF assms] by simp
qed

lemma frame_frameInv:
  "frameInv b \<Longrightarrow> h \<in> set (frameQueue b)
     \<Longrightarrow> frameInv (animate now (b\<lparr>frameQueue := removeAll h (frameQueue b)\<rparr>))"
  by (rule animate_frameInv) (auto simp: frameInv_def split: option.splits if_splits)

lemma onIntersection_frameInv: "frameInv b \<Longrightarrow> frameInv (onIntersection entries now b)"
  by (induction entries now b rule: onIntersection.induct)
     (auto simp: play_frameInv pause_frameInv)

lemma handleResize_frame [simp]:
  "frameInv (handleResize b) = frameInv b"
  by (rule frameInv_cong) (simp_all add: handleResize_def Let_def)

lemma createFloatingGeometry_frameInv [simp]:
  "frameInv (snd (createFloatingGeometry t opts rnd b)) = frameInv b"
  by (rule frameInv_cong) (simp_all add: createFloatingGeometry_def Let_def)

lemma addRandomObjects_frameInv: "frameInv b \<Longrightarrow> frameInv (addRandomObjects n rnd b)"
  by (induction n rnd b rule: addRandomObjects.induct) (simp_all add: Let_def)

lemma resized_frameInv [simp]: "frameInv (b\<lparr>canvasEl := c\<rparr>) = frameInv b"
  by (rule frameInv_cong) simp_all

lemma step_frameInv: "frameInv b \<Longrightarrow> frameInv (step e b)"
  by (cases e)
     (simp_all add: frame_frameInv play_frameInv pause_frameInv dispose_frameInv
        onVisibilityChange_def onIntersection_frameInv onResize_def
        addRandomObjects_frameInv)

lemma run_frameInv: "frameInv b \<Longrightarrow> frameInv (run es b)"
  by (induction es arbitrary: b) (simp_all add: step_frameInv)

lemma constructed_frameInv: "constructed doc now canvasId c1 c2 = Some b \<Longrightarrow> frameInv b"
  by (auto simp: constructed_def ThreeJSAnimator_def Let_def setupSceneOf_def setupScene_def
      intro!: animate_frameInv split: option.splits if_splits)

lemma constructed_on_demo:
  "constructed demoDocument 0 ''about-canvas-1'' (Some p) (Some q) =
     Some (animate 0 (setupSceneOf
       \<lparr>canvasEl = demoCanvas, scene = [],
        camera = \<lparr>aspect = (300, 150), cameraPosition = Vector3 0 0 0\<rparr>,
        renderer = \<lparr>rendererSize = (300, 150), rendererDisposed = False, framesRendered = 0\<rparr>,
        color1 = p, color2 = q, objects = [], animationId = None,
        isPlaying = True, frameQueue = [], nextHandle = 1\<rparr>))"
  by (simp add: constructed_def ThreeJSAnimator_def demoDocument_def demoCanvas_def)

lemma demoBinding_frameInv: "frameInv demoBinding"
  unfolding demoBinding_def
  using constructed_frameInv [OF constructed_on_demo]
  by (simp only: constructed_on_demo option.sel createFloatingGeometry_frameInv)

text \<open>
  Claim C6. Starting from a constructed instance, after any sequence of host events and
  method calls at most one frame request of the instance is pending, and none is
  pending while \<^verbatim>\<open>isPlaying\<close> is false.
\<close>

theorem frame_requests_bounded:
  assumes "constructed doc now canvasId c1 c2 = Some b0"
  shows "length (frameQueue (run es b0)) \<le> 1 \<and>
         (\<not> isPlaying (run es b0) \<longrightarrow> frameQueue (run es b0) = [])"
proof -
  have "frameInv (run es b0)"
    by (rule run_frameInv) (rule constructed_frameInv [OF assms])
  then show ?thesis
    by (auto simp: frameInv_def split: option.splits if_splits)
qed

text \<open>The instance on the demonstration canvas, hidden, resumed, run for a frame and
  paused.\<close>

theorem frame_requests_bounded_witness:
  "\<exists>b0. constructed demoDocument 0 ''about-canvas-1'' (Some 0x00FFFF) (Some 0x6600CC) = Some b0 \<and>
        length (frameQueue (run [VisibilityChange True 16, Play 40, FrameCallback 2 56, Pause] b0)) \<le> 1 \<and>
        \<not> isPlaying (run [VisibilityChange True 16, Play 40, FrameCallback 2 56, Pause] b0) \<and>
        frameQueue (run [VisibilityChange True 16, Play 40, FrameCallback 2 56, Pause] b0) = []"
proof -
  obtain b0 where c:
    "constructed demoDocument 0 ''about-canvas-1'' (Some 0x00FFFF) (Some 0x6600CC) = Some b0"
    using constructed_on_demo by blast
  have p: "\<not> isPlaying (run [VisibilityChange True 16, Play 40, FrameCallback 2 56, Pause] b0)"
    by simp
  from frame_requests_bounded [OF c, of "[VisibilityChange True 16, Play 40, FrameCallback 2 56, Pause]"] p c
  show ?thesis by blast
qed

subsection \<open>Disposal, pausing and resuming\<close>

lemma dispose_dispose: "dispose (dispose b) = dispose b"
  by (simp add: dispose_def pause_def cancelAnimationFrame_def Let_def split: option.splits)

lemma dispose_funpow: "(dispose ^^ Suc n) b = dispose b"
  by (induction n) (simp_all add: dispose_dispose)

text \<open>
  Claim C4. Calling \<^verbatim>\<open>dispose()\<close> \<open>N > 1\<close> times on an instance leaves the state that one
  call leaves. The method has no statement that throws on a constructed instance, so
  the model is a total function; of the external renderer the state records that it
  was disposed.
\<close>

theorem dispose_idempotent:
  "1 < N \<Longrightarrow> (dispose ^^ N) b = dispose b"
  using dispose_funpow [of "N - 1" b] by simp

lemma dispose_fields [simp]:
  "isPlaying (dispose b) = False"
  "objects (dispose b) = []"
  "nextHandle (dispose b) = nextHandle b"
  "rendererDisposed (renderer (dispose b)) = True"
  "framesRendered (renderer (dispose b)) = framesRendered (renderer b)"
  by (simp_all add: dispose_def Let_def)

text \<open>Three calls on the demonstration instance, which owns an object and has a frame
  request pending.\<close>

theorem dispose_idempotent_witness:
  "(1::nat) < 3 \<and> (dispose ^^ 3) demoBinding = dispose demoBinding \<and>
   objects demoBinding \<noteq> [] \<and> objects (dispose demoBinding) = [] \<and>
   frameQueue (dispose demoBinding) = [] \<and> rendererDisposed (renderer (dispose demoBinding))"
proof -
  have "objects demoBinding \<noteq> []"
    by (simp add: demoBinding_def createFloatingGeometry_def Let_def)
  moreover have "frameQueue (dispose demoBinding) = []"
    by (rule frameInv_paused [OF dispose_frameInv [OF demoBinding_frameInv]]) simp
  ultimately show ?thesis
    using dispose_idempotent [of 3 demoBinding] by simp
qed

text \<open>
  Claim C10. \<^verbatim>\<open>dispose()\<close> is not terminal: the instance keeps no record of it, and a
  later \<^verbatim>\<open>play()\<close> sets \<^verbatim>\<open>isPlaying\<close>, requests a frame and renders, over an empty
  \<^verbatim>\<open>objects\<close> array and on the disposed renderer; when the host runs that request the
  loop requests the next frame.
\<close>

theorem dispose_then_play_runs_again:
  "isPlaying (play now (dispose b)) \<and>
   objects (play now (dispose b)) = [] \<and>
   animationId (play now (dispose b)) = Some (nextHandle b) \<and>
   nextHandle b \<in> set (frameQueue (play now (dispose b))) \<and>
   framesRendered (renderer (play now (dispose b))) = Suc (framesRendered (renderer b)) \<and>
   rendererDisposed (renderer (play now (dispose b))) \<and>
   isPlaying (step (FrameCallback (nextHandle b) later) (play now (dispose b))) \<and>
   Suc (nextHandle b) \<in> set (frameQueue (step (FrameCallback (nextHandle b) later) (play now (dispose b)))) \<and>
   framesRendered (renderer (step (FrameCallback (nextHandle b) later) (play now (dispose b)))) =
     Suc (Suc (framesRendered (renderer b)))"
  by (simp add: play_def animate_def requestAnimationFrame_def Let_def)

lemma forEachFrom_length [simp]: "length (forEachFrom k f xs) = length xs"
  by (induction xs arbitrary: k) simp_all

lemma forEachFrom_nth: "i < length xs \<Longrightarrow> forEachFrom k f xs ! i = f (k + i) (xs ! i)"
proof (induction xs arbitrary: k i)
  case Nil
  then show ?case by simp
next
  case (Cons x xs)
  then show ?case by (cases i) simp_all
qed

lemma animateObject_fields:
  "rotation (animateObject t i obj) =
     Vector3 (vx (rotation obj) + vx (rotationSpeed (userData obj)))
             (vy (rotation obj) + vy (rotationSpeed (userData obj)))
             (vz (rotation obj) + vz (rotationSpeed (userData obj)))"
  "vx (position (animateObject t i obj)) = vx (position obj)"
  "vz (position (animateObject t i obj)) = vz (position obj)"
  "userData (animateObject t i obj) = userData obj"
  "geometry (animateObject t i obj) = geometry obj"
  "color (material (animateObject t i obj)) = HSL (js_rem (t * 0.1 + real i * 0.1) 1) 0.7 0.6"
  by (simp_all add: animateObject_def Let_def)

lemma animate_objects:
  "isPlaying b \<Longrightarrow>
     objects (animate now b) = forEachFrom 0 (animateObject (real now * 0.001)) (objects b)"
  by (simp add: animate_def requestAnimationFrame_def Let_def)

lemma play_pause_state:
  assumes "frameInv b"
  shows "frameQueue (pause b) = []"
    and "isPlaying (play now (pause b))"
    and "frameQueue (play now (pause b)) = [nextHandle b]"
    and "objects (play now (pause b)) =
           forEachFrom 0 (animateObject (real now * 0.001)) (objects b)"
proof -
  show q: "frameQueue (pause b) = []"
    by (rule frameInv_paused [OF pause_frameInv [OF assms]]) simp
  show "isPlaying (play now (pause b))"
    by (simp add: play_def)
  show "frameQueue (play now (pause b)) = [nextHandle b]"
    by (simp add: play_def animate_queue q)
  show "objects (play now (pause b)) =
           forEachFrom 0 (animateObject (real now * 0.001)) (objects b)"
    by (simp add: play_def animate_objects)
qed

text \<open>
  Claim C3, as the code has it. On a running instance \<^verbatim>\<open>pause()\<close> leaves every object
  unchanged and cancels the pending frame request. The \<^verbatim>\<open>play()\<close> that follows sets
  \<^verbatim>\<open>isPlaying\<close>, leaves exactly one new frame request pending, and runs one frame update
  at once: every rotation advances by the object's rotation speed from its value at
  the pause, the x and z positions and the animation profile keep their values.
\<close>

theorem pause_play_applies_one_frame:
  assumes "frameInv b" and "isPlaying b"
  shows "objects (pause b) = objects b \<and> frameQueue (pause b) = [] \<and>
         isPlaying (play now (pause b)) \<and>
         frameQueue (play now (pause b)) = [nextHandle b] \<and>
         objects (play now (pause b)) =
           forEachFrom 0 (animateObject (real now * 0.001)) (objects b) \<and>
         length (objects (play now (pause b))) = length (objects b) \<and>
         (\<forall>i < length (objects b).
            rotation (objects (play now (pause b)) ! i) =
              Vector3 (vx (rotation (objects b ! i)) + vx (rotationSpeed (userData (objects b ! i))))
                      (vy (rotation (objects b ! i)) + vy (rotationSpeed (userData (objects b ! i))))
                      (vz (rotation (objects b ! i)) + vz (rotationSpeed (userData (objects b ! i)))) \<and>
            vx (position (objects (play now (pause b)) ! i)) = vx (position (objects b ! i)) \<and>
            vz (position (objects (play now (pause b)) ! i)) = vz (position (objects b ! i)) \<and>
            userData (objects (play now (pause b)) ! i) = userData (objects b ! i))"
  using play_pause_state [OF assms(1)]
  by (simp add: forEachFrom_nth animateObject_fields)

lemma demoBinding_objects:
  "objects demoBinding = [newMesh 0x00FFFF 0x6600CC ''cube'' noOptions (\<lambda>i. 3 / 4)]"
  by (simp add: demoBinding_def constructed_on_demo createFloatingGeometry_def Let_def
      setupSceneOf_def setupScene_def animate_def requestAnimationFrame_def)

lemma demoBinding_playing: "isPlaying demoBinding"
  by (simp add: demoBinding_def constructed_on_demo createFloatingGeometry_def Let_def
      setupSceneOf_def setupScene_def)

lemma demoBinding_nextHandle: "nextHandle demoBinding = 2"
  by (simp add: demoBinding_def constructed_on_demo createFloatingGeometry_def Let_def
      setupSceneOf_def setupScene_def animate_queue)

text \<open>The demonstration instance: its cube turns by 1/200 on each axis.\<close>

theorem pause_play_applies_one_frame_witness:
  "frameInv demoBinding \<and> isPlaying demoBinding \<and>
   frameQueue (pause demoBinding) = [] \<and>
   frameQueue (play 0 (pause demoBinding)) = [2] \<and>
   rotation (objects (play 0 (pause demoBinding)) ! 0) =
     Vector3 (3 / 4 * pi * 2 + 1 / 200) (3 / 4 * pi * 2 + 1 / 200) (3 / 4 * pi * 2 + 1 / 200) \<and>
   vx (position (objects (play 0 (pause demoBinding)) ! 0)) = 3 / 2"
  using pause_play_applies_one_frame [OF demoBinding_frameInv demoBinding_playing, of 0]
  by (simp add: demoBinding_frameInv demoBinding_playing demoBinding_nextHandle
      demoBinding_objects animateObject_fields newMesh_def Let_def)

text \<open>Claim C3 as stated fails: after \<^verbatim>\<open>pause()\<close> and \<^verbatim>\<open>play()\<close> the rotation of the
  demonstration cube is not what it was at the pause.\<close>

theorem pause_play_changes_rotation:
  "frameInv demoBinding \<and> isPlaying demoBinding \<and>
   map rotation (objects (play 0 (pause demoBinding))) \<noteq> map rotation (objects demoBinding)"
  by (simp add: demoBinding_frameInv demoBinding_playing play_def animate_objects
      demoBinding_objects animateObject_fields newMesh_def Let_def)

subsection \<open>The palette does not reach the displayed colour\<close>

lemma animateObject_erase: "animateObject t i (eraseObject obj) = animateObject t i obj"
  by (simp add: animateObject_def eraseObject_def Let_def)

lemma forEachFrom_erase:
  "forEachFrom k (animateObject t) (map eraseObject xs) = forEachFrom k (animateObject t) xs"
  by (induction xs arbitrary: k) (simp_all add: animateObject_erase)

lemma erasePalette_fields [simp]:
  "isPlaying (erasePalette b) = isPlaying b"
  "objects (erasePalette b) = map eraseObject (objects b)"
  "animationId (erasePalette b) = animationId b"
  "frameQueue (erasePalette b) = frameQueue b"
  "nextHandle (erasePalette b) = nextHandle b"
  "canvasEl (erasePalette b) = canvasEl b"
  by (simp_all add: erasePalette_def)

lemma erase_idem [simp]: "eraseObject (eraseObject obj) = eraseObject obj"
  by (simp add: eraseObject_def)

lemma erase_animate: "erasePalette (animate now b) = erasePalette (animate now (erasePalette b))"
  by (simp add: animate_def requestAnimationFrame_def Let_def erasePalette_def forEachFrom_erase)

lemma erase_pause: "erasePalette (pause b) = erasePalette (pause (erasePalette b))"
  by (simp add: pause_def cancelAnimationFrame_def Let_def erasePalette_def split: option.splits)

lemma erase_play: "erasePalette (play now b) = erasePalette (play now (erasePalette b))"
  by (simp add: play_def animate_def requestAnimationFrame_def Let_def erasePalette_def forEachFrom_erase)

lemma erase_dispose: "erasePalette (dispose b) = erasePalette (dispose (erasePalette b))"
  by (simp add: dispose_def pause_def cancelAnimationFrame_def Let_def erasePalette_def split: option.splits)

lemma erase_handleResize: "erasePalette (handleResize b) = erasePalette (handleResize (erasePalette b))"
  by (simp add: handleResize_def Let_def erasePalette_def)

lemma erase_newMesh: "eraseObject (newMesh c1 c2 t opts rnd) = eraseObject (newMesh 0 0 t opts rnd)"
  by (simp add: newMesh_def eraseObject_def Let_def)

lemma erase_create:
  "erasePalette (snd (createFloatingGeometry t opts rnd b)) =
   erasePalette (snd (createFloatingGeometry t opts rnd (erasePalette b)))"
  by (simp add: createFloatingGeometry_def Let_def erasePalette_def erase_newMesh [of "color1 b" "color2 b"])

lemma erase_eq_fields:
  assumes "erasePalette a = erasePalette a'"
  shows "isPlaying a = isPlaying a'" and "frameQueue a = frameQueue a'"
    and "canvasEl a = canvasEl a'" and "length (objects a) = length (objects a')"
proof -
  show "isPlaying a = isPlaying a'"
    using arg_cong [OF assms, of isPlaying] by simp
  show "frameQueue a = frameQueue a'"
    using arg_cong [OF assms, of frameQueue] by simp
  show "canvasEl a = canvasEl a'"
    using arg_cong [OF assms, of canvasEl] by simp
  show "length (objects a) = length (objects a')"
    using arg_cong [OF assms, of "\<lambda>x. length (objects x)"] by simp
qed

lemma erase_animate_rel:
  "erasePalette a = erasePalette a' \<Longrightarrow>
     erasePalette (animate now a) = erasePalette (animate now a')"
  by (metis erase_animate)

lemma erase_pause_rel:
  "erasePalette a = erasePalette a' \<Longrightarrow> erasePalette (pause a) = erasePalette (pause a')"
  by (metis erase_pause)

lemma erase_play_rel:
  "erasePalette a = erasePalette a' \<Longrightarrow>
     erasePalette (play now a) = erasePalette (play now a')"
  by (metis erase_play)

lemma erase_dispose_rel:
  "erasePalette a = erasePalette a' \<Longrightarrow> erasePalette (dispose a) = erasePalette (dispose a')"
  by (metis erase_dispose)

lemma erase_handleResize_rel:
  "erasePalette a = erasePalette a' \<Longrightarrow>
     erasePalette (handleResize a) = erasePalette (handleResize a')"
  by (metis erase_handleResize)

lemma erase_create_rel:
  "erasePalette a = erasePalette a' \<Longrightarrow>
     erasePalette (snd (createFloatingGeometry t opts rnd a)) =
     erasePalette (snd (createFloatingGeometry t opts rnd a'))"
  by (metis erase_create)

lemma erase_addRandomObjects:
  "erasePalette a = erasePalette a' \<Longrightarrow>
     erasePalette (addRandomObjects n rnd a) = erasePalette (addRandomObjects n rnd a')"
proof (induction n arbitrary: rnd a a')
  case 0
  then show ?case by simp
next
  case (Suc n)
  show ?case
    by (simp add: Let_def) (rule Suc.IH, rule erase_create_rel [OF Suc.prems])
qed

lemma erase_onIntersection:
  "erasePalette a = erasePalette a' \<Longrightarrow>
     erasePalette (onIntersection entries now a) = erasePalette (onIntersection entries now a')"
proof (induction entries arbitrary: a a')
  case Nil
  then show ?case by simp
next
  case (Cons entry entries)
  obtain target vis where e: "entry = (target, vis)" by (cases entry)
  have c: "canvasEl a = canvasEl a'"
    by (rule erase_eq_fields(3) [OF Cons.prems])
  have "erasePalette (if target = elementId (canvasEl a)
                      then (if vis then play now a else pause a) else a) =
        erasePalette (if target = elementId (canvasEl a)
                      then (if vis then play now a' else pause a') else a')"
    using erase_play_rel [OF Cons.prems] erase_pause_rel [OF Cons.prems] Cons.prems
    by simp
  then have "erasePalette (onIntersection entries now
                (if target = elementId (canvasEl a)
                 then (if vis then play now a else pause a) else a)) =
             erasePalette (onIntersection entries now
                (if target = elementId (canvasEl a)
                 then (if vis then play now a' else pause a') else a'))"
    by (rule Cons.IH)
  then show ?case
    unfolding e onIntersection.simps c [symmetric] .
qed

lemma erase_frameQueue_comm:
  "erasePalette (b\<lparr>frameQueue := q\<rparr>) = (erasePalette b)\<lparr>frameQueue := q\<rparr>"
  by (simp add: erasePalette_def)

lemma erase_frameQueue_update:
  "erasePalette a = erasePalette a' \<Longrightarrow>
     erasePalette (a\<lparr>frameQueue := q\<rparr>) = erasePalette (a'\<lparr>frameQueue := q\<rparr>)"
  by (simp only: erase_frameQueue_comm)

lemma erase_canvas_comm:
  "erasePalette (b\<lparr>canvasEl := c\<rparr>) = (erasePalette b)\<lparr>canvasEl := c\<rparr>"
  by (simp add: erasePalette_def)

lemma erase_canvas_update:
  "erasePalette a = erasePalette a' \<Longrightarrow>
     erasePalette (a\<lparr>canvasEl := c\<rparr>) = erasePalette (a'\<lparr>canvasEl := c\<rparr>)"
  by (simp only: erase_canvas_comm)

lemma erase_step:
  assumes "erasePalette a = erasePalette a'"
  shows "erasePalette (step e a) = erasePalette (step e a')"
proof (cases e)
  case (FrameCallback h now)
  then show ?thesis
    using erase_eq_fields(2) [OF assms]
      erase_animate_rel [OF erase_frameQueue_update [OF assms]] assms
    by simp
next
  case (Play now)
  then show ?thesis using erase_play_rel [OF assms] by simp
next
  case Pause
  then show ?thesis using erase_pause_rel [OF assms] by simp
next
  case Dispose
  then show ?thesis using erase_dispose_rel [OF assms] by simp
next
  case (VisibilityChange hidden now)
  then show ?thesis
    using erase_play_rel [OF assms] erase_pause_rel [OF assms]
    by (simp add: onVisibilityChange_def)
next
  case (Intersection entries now)
  then show ?thesis using erase_onIntersection [OF assms] by simp
next
  case (Resized w h)
  then show ?thesis
    using erase_handleResize_rel [OF erase_canvas_update [OF assms]]
      erase_eq_fields(3) [OF assms]
    by (simp add: onResize_def)
next
  case (CreateFloatingGeometry t opts rnd)
  then show ?thesis using erase_create_rel [OF assms] by simp
next
  case (AddRandomObjects n rnd)
  then show ?thesis using erase_addRandomObjects [OF assms] by simp
qed

lemma erase_run:
  "erasePalette a = erasePalette a' \<Longrightarrow> erasePalette (run es a) = erasePalette (run es a')"
proof (induction es arbitrary: a a')
  case Nil
  then show ?case by simp
next
  case (Cons e es)
  have "erasePalette (run es (step e a)) = erasePalette (run es (step e a'))"
    by (rule Cons.IH) (rule erase_step [OF Cons.prems])
  then show ?case by simp
qed

lemma erase_constructed:
  assumes "constructed doc now canvasId c1 c2 = Some a"
    and "constructed doc now canvasId c1' c2' = Some a'"
  shows "erasePalette a = erasePalette a'"
  using assms
  by (auto simp: constructed_def ThreeJSAnimator_def Let_def setupSceneOf_def setupScene_def
      animate_def requestAnimationFrame_def erasePalette_def
      split: option.splits if_splits)

lemma animate_objects_erase:
  assumes "erasePalette x = erasePalette x'" and "isPlaying x"
  shows "objects (animate now x) = objects (animate now x')"
proof -
  have "map eraseObject (objects x) = map eraseObject (objects x')"
    using arg_cong [OF assms(1), of objects] by simp
  then have "forEachFrom 0 (animateObject (real now * 0.001)) (objects x) =
             forEachFrom 0 (animateObject (real now * 0.001)) (objects x')"
    by (metis forEachFrom_erase)
  then show ?thesis
    using assms(2) erase_eq_fields(1) [OF assms(1)] by (simp add: animate_objects)
qed

text \<open>
  Claim C9. Two instances constructed on the same canvas at the same time with
  different palettes, and taken through the same events, show the same colours after
  a frame update: the colour of the object at index \<open>i\<close> is set to hue
  \<open>(0.1 * time + 0.1 * i) % 1\<close>, saturation 0.7 and lightness 0.6.
\<close>

theorem frame_colour_independent_of_palette:
  assumes "constructed doc t0 canvasId c1 c2 = Some a"
    and "constructed doc t0 canvasId c1' c2' = Some a'"
    and "isPlaying (run es a)"
  shows "map (\<lambda>obj. color (material obj)) (objects (animate now (run es a))) =
         map (\<lambda>obj. color (material obj)) (objects (animate now (run es a'))) \<and>
         (\<forall>i < length (objects (run es a)).
            color (material (objects (animate now (run es a)) ! i)) =
              HSL (js_rem (real now * 0.001 * 0.1 + real i * 0.1) 1) 0.7 0.6)"
proof -
  have "erasePalette (run es a) = erasePalette (run es a')"
    by (rule erase_run) (rule erase_constructed [OF assms(1,2)])
  then have eq: "objects (animate now (run es a)) = objects (animate now (run es a'))"
    by (rule animate_objects_erase) (rule assms(3))
  have col: "\<forall>i < length (objects (run es a)).
            color (material (objects (animate now (run es a)) ! i)) =
              HSL (js_rem (real now * 0.001 * 0.1 + real i * 0.1) 1) 0.7 0.6"
    by (simp add: animate_objects [OF assms(3)] forEachFrom_nth animateObject_fields)
  show ?thesis
    by (rule conjI) (simp only: eq, rule col)
qed

lemma demo_run_objects:
  assumes "constructed demoDocument 0 ''about-canvas-1'' (Some p) (Some q) = Some a"
  shows "objects (run [CreateFloatingGeometry (Some ''cube'') None (\<lambda>i. 3 / 4)] a) =
           [newMesh p q ''cube'' noOptions (\<lambda>i. 3 / 4)]"
    and "isPlaying (run [CreateFloatingGeometry (Some ''cube'') None (\<lambda>i. 3 / 4)] a)"
  using assms unfolding constructed_on_demo
  by (auto simp: createFloatingGeometry_def Let_def setupSceneOf_def setupScene_def
      animate_def requestAnimationFrame_def)

text \<open>Two palettes on the demonstration canvas: the cubes differ in colour before the
  frame update and agree after it.\<close>

theorem frame_colour_independent_of_palette_witness:
  "\<exists>a a'. constructed demoDocument 0 ''about-canvas-1'' (Some 0x00FFFF) (Some 0x6600CC) = Some a \<and>
          constructed demoDocument 0 ''about-canvas-1'' (Some 0xFF00FF) (Some 0x00CC66) = Some a' \<and>
          isPlaying (run [CreateFloatingGeometry (Some ''cube'') None (\<lambda>i. 3 / 4)] a) \<and>
          map (\<lambda>obj. color (material obj))
            (objects (run [CreateFloatingGeometry (Some ''cube'') None (\<lambda>i. 3 / 4)] a)) =
            [Hex 0x00FFFF] \<and>
          map (\<lambda>obj. color (material obj))
            (objects (run [CreateFloatingGeometry (Some ''cube'') None (\<lambda>i. 3 / 4)] a')) =
            [Hex 0xFF00FF] \<and>
          map (\<lambda>obj. color (material obj))
            (objects (animate 0 (run [CreateFloatingGeometry (Some ''cube'') None (\<lambda>i. 3 / 4)] a))) =
            [HSL 0 0.7 0.6] \<and>
          map (\<lambda>obj. color (material obj))
            (objects (animate 0 (run [CreateFloatingGeometry (Some ''cube'') None (\<lambda>i. 3 / 4)] a'))) =
            [HSL 0 0.7 0.6]"
proof -
  let ?es = "[CreateFloatingGeometry (Some ''cube'') None (\<lambda>i. 3 / 4)]"
  obtain a where a: "constructed demoDocument 0 ''about-canvas-1'' (Some 0x00FFFF) (Some 0x6600CC) = Some a"
    using constructed_on_demo by blast
  obtain a' where a': "constructed demoDocument 0 ''about-canvas-1'' (Some 0xFF00FF) (Some 0x00CC66) = Some a'"
    using constructed_on_demo by blast
  note oa = demo_run_objects [OF a] and oa' = demo_run_objects [OF a']
  have before: "map (\<lambda>obj. color (material obj)) (objects (run ?es a)) = [Hex 0x00FFFF]"
    "map (\<lambda>obj. color (material obj)) (objects (run ?es a')) = [Hex 0xFF00FF]"
    unfolding oa(1) oa'(1) by (simp_all add: newMesh_def Let_def)
  have after: "map (\<lambda>obj. color (material obj)) (objects (animate 0 (run ?es a))) = [HSL 0 0.7 0.6]"
    unfolding animate_objects [OF oa(2)] oa(1)
    by (simp add: animateObject_fields js_rem_def js_trunc_def)
  from frame_colour_independent_of_palette [OF a a' oa(2), of 0] after
  have after': "map (\<lambda>obj. color (material obj)) (objects (animate 0 (run ?es a'))) = [HSL 0 0.7 0.6]"
    by simp
  show ?thesis
    by (rule exI [of _ a], rule exI [of _ a'])
       (intro conjI a a' oa(2) before after after')
qed

subsection \<open>Object creation\<close>

text \<open>
  Claim C7. \<^verbatim>\<open>createFloatingGeometry\<close> appends exactly the mesh it returns to
  \<^verbatim>\<open>objects\<close>; the six supported types give six different geometry classes; any other
  type, and an omitted type, give the mesh that \<^verbatim>\<open>'sphere'\<close> gives. The function has no
  failing branch.
\<close>

theorem createFloatingGeometry_one_object:
  "objects (snd (createFloatingGeometry type opts rnd b)) =
     objects b @ [fst (createFloatingGeometry type opts rnd b)] \<and>
   map (\<lambda>t. primitiveOf (geometry (fst (createFloatingGeometry (Some t) opts rnd b)))) shapeTypes =
     [''SphereGeometry'', ''BoxGeometry'', ''TorusGeometry'', ''OctahedronGeometry'',
      ''IcosahedronGeometry'', ''TetrahedronGeometry''] \<and>
   distinct (map (\<lambda>t. primitiveOf (geometry (fst (createFloatingGeometry (Some t) opts rnd b))))
               shapeTypes) \<and>
   (t \<notin> set shapeTypes \<longrightarrow>
      fst (createFloatingGeometry (Some t) opts rnd b) =
      fst (createFloatingGeometry (Some ''sphere'') opts rnd b)) \<and>
   fst (createFloatingGeometry None opts rnd b) =
     fst (createFloatingGeometry (Some ''sphere'') opts rnd b)"
  by (simp add: createFloatingGeometry_def newMesh_def chooseGeometry_def shapeTypes_def
      primitiveOf_def Let_def)

text \<open>The unsupported type \<^verbatim>\<open>'cone'\<close> on the demonstration instance.\<close>

theorem createFloatingGeometry_one_object_witness:
  "''cone'' \<notin> set shapeTypes \<and>
   geometry (fst (createFloatingGeometry (Some ''cone'') None (\<lambda>i. 1 / 2) demoBinding)) =
     SphereGeometry 0.8 32 32 \<and>
   geometry (fst (createFloatingGeometry (Some ''sphere'') None (\<lambda>i. 1 / 2) demoBinding)) =
     SphereGeometry 0.8 32 32 \<and>
   length (objects (snd (createFloatingGeometry (Some ''cone'') None (\<lambda>i. 1 / 2) demoBinding))) = 2"
  using createFloatingGeometry_one_object
    [of "Some ''cone''" None "\<lambda>i. 1 / 2" demoBinding "''cone''"]
  by (simp add: shapeTypes_def demoBinding_objects createFloatingGeometry_def newMesh_def
      chooseGeometry_def mergeConfig_def noOptions_def Let_def)

lemma unit_interval_scaled:
  fixes r :: real
  assumes "0 \<le> r" and "r < 1"
  shows "- 3 \<le> (r - 0.5) * 6" and "(r - 0.5) * 6 < 3"
    and "- 1.5 \<le> (r - 0.5) * 3" and "(r - 0.5) * 3 < 1.5"
    and "0 \<le> r * pi * 2" and "r * pi * 2 < 2 * pi"
    and "- 0.01 \<le> (r - 0.5) * 0.02" and "(r - 0.5) * 0.02 < 0.01"
    and "0.005 \<le> r * 0.01 + 0.005" and "r * 0.01 + 0.005 < 0.015"
    and "0.2 \<le> r * 0.5 + 0.2" and "r * 0.5 + 0.2 < 0.7"
    and "0.01 \<le> r * 0.02 + 0.01" and "r * 0.02 + 0.01 < 0.03"
  using assms pi_gt_zero by (simp_all add: mult_less_cancel_right2)

text \<open>
  Claim C8. When every random number lies in \<open>[0, 1)\<close>, the created mesh has one of the
  two palette colours, x and y positions in \<open>[-3, 3)\<close> and z position in
  \<open>[-1.5, 1.5)\<close>, rotations in \<open>[0, 2\<pi>)\<close>, rotation speeds in \<open>[-0.01, 0.01)\<close>, float
  speed in \<open>[0.005, 0.015)\<close>, float amount in \<open>[0.2, 0.7)\<close> and pulse speed in
  \<open>[0.01, 0.03)\<close>, and its origin is its initial position. The bounds are those of real
  arithmetic.
\<close>

theorem created_attributes_in_range:
  assumes "\<forall>i. 0 \<le> rnd i \<and> rnd i < 1"
    and "m = fst (createFloatingGeometry type opts rnd b)"
  shows "(color (material m) = Hex (color1 b) \<or> color (material m) = Hex (color2 b)) \<and>
         - 3 \<le> vx (position m) \<and> vx (position m) < 3 \<and>
         - 3 \<le> vy (position m) \<and> vy (position m) < 3 \<and>
         - 1.5 \<le> vz (position m) \<and> vz (position m) < 1.5 \<and>
         0 \<le> vx (rotation m) \<and> vx (rotation m) < 2 * pi \<and>
         0 \<le> vy (rotation m) \<and> vy (rotation m) < 2 * pi \<and>
         0 \<le> vz (rotation m) \<and> vz (rotation m) < 2 * pi \<and>
         - 0.01 \<le> vx (rotationSpeed (userData m)) \<and> vx (rotationSpeed (userData m)) < 0.01 \<and>
         - 0.01 \<le> vy (rotationSpeed (userData m)) \<and> vy (rotationSpeed (userData m)) < 0.01 \<and>
         - 0.01 \<le> vz (rotationSpeed (userData m)) \<and> vz (rotationSpeed (userData m)) < 0.01 \<and>
         0.005 \<le> floatSpeed (userData m) \<and> floatSpeed (userData m) < 0.015 \<and>
         0.2 \<le> floatAmount (userData m) \<and> floatAmount (userData m) < 0.7 \<and>
         0.01 \<le> pulseSpeed (userData m) \<and> pulseSpeed (userData m) < 0.03 \<and>
         originalPosition (userData m) = position m"
proof -
  have r: "\<And>i. 0 \<le> rnd i" "\<And>i. rnd i < 1"
    using assms(1) by simp_all
  show ?thesis
    unfolding assms(2)
    using unit_interval_scaled [OF r(1) r(2)]
    by (simp add: createFloatingGeometry_def newMesh_def Let_def)
qed

lemma demoBinding_palette: "color1 demoBinding = 0x00FFFF" "color2 demoBinding = 0x6600CC"
  by (simp_all add: demoBinding_def constructed_on_demo createFloatingGeometry_def Let_def
      setupSceneOf_def setupScene_def)

text \<open>A torus created with every random number equal to 3/4.\<close>

theorem created_attributes_in_range_witness:
  "(\<forall>i::nat. (0::real) \<le> 3 / 4 \<and> (3 / 4 :: real) < 1) \<and>
   color (material (fst (createFloatingGeometry (Some ''torus'') None (\<lambda>i. 3 / 4) demoBinding))) =
     Hex 0x00FFFF \<and>
   position (fst (createFloatingGeometry (Some ''torus'') None (\<lambda>i. 3 / 4) demoBinding)) =
     Vector3 (3 / 2) (3 / 2) (3 / 4) \<and>
   vx (rotation (fst (createFloatingGeometry (Some ''torus'') None (\<lambda>i. 3 / 4) demoBinding))) =
     3 / 4 * pi * 2 \<and>
   vx (rotation (fst (createFloatingGeometry (Some ''torus'') None (\<lambda>i. 3 / 4) demoBinding))) <
     2 * pi \<and>
   floatSpeed (userData (fst (createFloatingGeometry (Some ''torus'') None (\<lambda>i. 3 / 4) demoBinding))) =
     1 / 80 \<and>
   floatAmount (userData (fst (createFloatingGeometry (Some ''torus'') None (\<lambda>i. 3 / 4) demoBinding))) =
     23 / 40 \<and>
   pulseSpeed (userData (fst (createFloatingGeometry (Some ''torus'') None (\<lambda>i. 3 / 4) demoBinding))) =
     1 / 40"
proof -
  have h: "\<forall>i::nat. (0::real) \<le> 3 / 4 \<and> (3 / 4 :: real) < 1"
    by simp
  from created_attributes_in_range [OF h refl, of "Some ''torus''" None demoBinding]
  have "vx (rotation (fst (createFloatingGeometry (Some ''torus'') None (\<lambda>i. 3 / 4) demoBinding))) <
     2 * pi"
    by simp
  then show ?thesis
    by (simp add: createFloatingGeometry_def newMesh_def Let_def demoBinding_palette)
qed

subsection \<open>Visibility notifications\<close>

lemma play_isPlaying [simp]: "isPlaying (play now b)"
  by (simp add: play_def)

lemma deliver_isPlaying: "isPlaying (animatorOf (deliver n p)) = reportsVisible n"
  by (cases n) (simp_all add: onVisibilityChange_def)

lemma deliverAll_snoc: "deliverAll (ns @ [n]) p = deliver n (deliverAll ns p)"
  by (induction ns arbitrary: p) simp_all

text \<open>
  Claim C1, as the code has it. The two listeners are independent: after any
  notifications, the instance plays exactly if the last notification, from either
  source, reported visible. So a source reporting not-visible pauses the instance,
  and a source reporting visible resumes it whatever the other source reported last.
\<close>

theorem last_notification_decides:
  "isPlaying (animatorOf (deliverAll (ns @ [n]) p)) = reportsVisible n"
  by (simp only: deliverAll_snoc deliver_isPlaying)

text \<open>Claim C1 as stated fails: the canvas leaves the viewport, the tab is hidden and
  shown again, and the instance plays although the canvas does not intersect.\<close>

theorem running_while_not_intersecting:
  "isPlaying (animatorOf demoPage) \<and> \<not> documentHidden demoPage \<and> intersecting demoPage \<and>
   \<not> (isPlaying (animatorOf (deliverAll
          [ElementIntersection False 10, DocumentVisibility True 20, DocumentVisibility False 30]
          demoPage)) \<longleftrightarrow>
       (\<not> documentHidden (deliverAll
          [ElementIntersection False 10, DocumentVisibility True 20, DocumentVisibility False 30]
          demoPage) \<and>
        intersecting (deliverAll
          [ElementIntersection False 10, DocumentVisibility True 20, DocumentVisibility False 30]
          demoPage)))"
  by (simp add: demoPage_def demoBinding_playing onVisibilityChange_def)

subsection \<open>Staggered creation of the card animations\<close>

lemma constructed_None:
  "doc k = None \<Longrightarrow> constructed doc t k c1 c2 = None"
  "doc k = Some cv \<Longrightarrow> \<not> contextAvailable cv \<Longrightarrow> constructed doc t k c1 c2 = None"
  by (simp_all add: constructed_def ThreeJSAnimator_def)

lemma constructed_Some:
  assumes "doc k = Some cv" and "contextAvailable cv"
  shows "\<exists>b. constructed doc t k (Some p) (Some q) = Some b \<and>
             canvasEl b = cv \<and> color1 b = p \<and> color2 b = q \<and> isPlaying b \<and>
             objects b = [] \<and> animationId b = Some 1 \<and> frameQueue b = [1] \<and>
             nextHandle b = 2 \<and>
             framesRendered (renderer b) = 1 \<and> \<not> rendererDisposed (renderer b)"
  using assms
  by (simp add: constructed_def ThreeJSAnimator_def Let_def setupSceneOf_def setupScene_def
      animate_def requestAnimationFrame_def)

lemma createFloatingGeometry_keeps [simp]:
  "canvasEl (snd (createFloatingGeometry t opts rnd b)) = canvasEl b"
  "color1 (snd (createFloatingGeometry t opts rnd b)) = color1 b"
  "color2 (snd (createFloatingGeometry t opts rnd b)) = color2 b"
  "isPlaying (snd (createFloatingGeometry t opts rnd b)) = isPlaying b"
  "animationId (snd (createFloatingGeometry t opts rnd b)) = animationId b"
  "frameQueue (snd (createFloatingGeometry t opts rnd b)) = frameQueue b"
  "renderer (snd (createFloatingGeometry t opts rnd b)) = renderer b"
  "nextHandle (snd (createFloatingGeometry t opts rnd b)) = nextHandle b"
  "length (objects (snd (createFloatingGeometry t opts rnd b))) = Suc (length (objects b))"
  by (simp_all add: createFloatingGeometry_def Let_def)

lemma addRandomObjects_keeps:
  "canvasEl (addRandomObjects n rnd b) = canvasEl b \<and>
   color1 (addRandomObjects n rnd b) = color1 b \<and>
   color2 (addRandomObjects n rnd b) = color2 b \<and>
   isPlaying (addRandomObjects n rnd b) = isPlaying b \<and>
   animationId (addRandomObjects n rnd b) = animationId b \<and>
   frameQueue (addRandomObjects n rnd b) = frameQueue b \<and>
   renderer (addRandomObjects n rnd b) = renderer b \<and>
   nextHandle (addRandomObjects n rnd b) = nextHandle b \<and>
   length (objects (addRandomObjects n rnd b)) = length (objects b) + n"
  by (induction n rnd b rule: addRandomObjects.induct) (simp_all add: Let_def)

lemma created_liveCard:
  assumes "doc k = Some cv" and "contextAvailable cv"
  shows "\<exists>b. constructed doc t k (Some p) (Some q) = Some b \<and>
             liveCard cv (addRandomObjects 3 rnd b) \<and>
             color1 (addRandomObjects 3 rnd b) = p \<and> color2 (addRandomObjects 3 rnd b) = q"
proof -
  obtain b where b: "constructed doc t k (Some p) (Some q) = Some b"
    "canvasEl b = cv" "color1 b = p" "color2 b = q" "isPlaying b"
    "objects b = []" "animationId b = Some 1" "frameQueue b = [1]" "nextHandle b = 2"
    "framesRendered (renderer b) = 1" "\<not> rendererDisposed (renderer b)"
    using constructed_Some [of doc k cv t p q] assms by blast
  show ?thesis
    using b addRandomObjects_keeps [of 3 rnd b]
    by (simp add: liveCard_def)
qed

lemma createCard_constructed:
  "createCard c (m, h) =
     (case constructed (document h) (clock h) (cardId c)
             (Some (fst (colors c))) (Some (snd (colors c))) of
        None \<Rightarrow> (m, h\<lparr>console := console h @ cardLog (document h) c\<rparr>)
      | Some b \<Rightarrow>
          (m\<lparr>animators :=
               AList.update (cardId c) (addRandomObjects 3 (random h) b) (animators m)\<rparr>,
           h\<lparr>console := console h @ cardLog (document h) c,
             random := (\<lambda>i. random h (i + 45))\<rparr>))"
  by (simp add: createCard_def constructed_def ThreeJSAnimator_def cardLog_def Let_def
      split: option.splits)

lemma fireNext_empty: "timers h = [] \<Longrightarrow> fireNext (m, h) = (m, h)"
  by (simp add: fireNext_def)

lemma fireNext_card:
  "timers h = (due, CreateCard c) # rest \<Longrightarrow>
     fireNext (m, h) = createCard c (m, h\<lparr>timers := rest, clock := max (clock h) due\<rparr>)"
  by (simp add: fireNext_def runTask_def)

lemma fire_n:
  "animators (fst ((fireNext ^^ n) (m, h))) =
     cardsFrom (document h) (clock h) (random h) (take n (timers h)) (animators m) \<and>
   configs (fst ((fireNext ^^ n) (m, h))) = configs m \<and>
   timers (snd ((fireNext ^^ n) (m, h))) = drop n (timers h) \<and>
   document (snd ((fireNext ^^ n) (m, h))) = document h \<and>
   console (snd ((fireNext ^^ n) (m, h))) =
     console h @ concat (map (\<lambda>(due, t). cardLog (document h) (taskConfig t)) (take n (timers h)))"
proof (induction n arbitrary: m h)
  case 0
  then show ?case by simp
next
  case (Suc n)
  have unfold: "(fireNext ^^ Suc n) (m, h) = (fireNext ^^ n) (fireNext (m, h))"
    by (simp add: funpow_swap1)
  show ?case
  proof (cases "timers h")
    case Nil
    then show ?thesis
      unfolding unfold using Suc.IH [of m h] by (simp add: fireNext_empty)
  next
    case (Cons dt rest)
    obtain due c where dt: "dt = (due, CreateCard c)"
      by (cases dt, rename_tac d t, case_tac t) simp
    let ?h = "h\<lparr>timers := rest, clock := max (clock h) due\<rparr>"
    have f: "fireNext (m, h) = createCard c (m, ?h)"
      using Cons dt by (simp add: fireNext_card)
    show ?thesis
    proof (cases "constructed (document h) (max (clock h) due) (cardId c)
                    (Some (fst (colors c))) (Some (snd (colors c)))")
      case None
      let ?h' = "?h\<lparr>console := console ?h @ cardLog (document ?h) c\<rparr>"
      have cc: "createCard c (m, ?h) = (m, ?h')"
        using None by (simp add: createCard_constructed)
      show ?thesis
        unfolding unfold f cc using Suc.IH [of m ?h'] None Cons
        by (simp add: dt taskConfig_def)
    next
      case (Some b)
      let ?m' = "m\<lparr>animators :=
                     AList.update (cardId c) (addRandomObjects 3 (random ?h) b) (animators m)\<rparr>"
      let ?h' = "?h\<lparr>console := console ?h @ cardLog (document ?h) c,
                     random := (\<lambda>i. random ?h (i + 45))\<rparr>"
      have cc: "createCard c (m, ?h) = (?m', ?h')"
        using Some by (simp add: createCard_constructed)
      show ?thesis
        unfolding unfold f cc using Suc.IH [of ?m' ?h'] Some Cons
        by (simp add: dt taskConfig_def)
    qed
  qed
qed

lemma drain_eq: "drain (m, h) = (fireNext ^^ length (timers h)) (m, h)"
  by (simp add: drain_def)

lemma drain_result:
  "animators (fst (drain (m, h))) =
     cardsFrom (document h) (clock h) (random h) (timers h) (animators m)"
  "timers (snd (drain (m, h))) = []"
  "console (snd (drain (m, h))) =
     console h @ concat (map (\<lambda>(due, t). cardLog (document h) (taskConfig t)) (timers h))"
  using fire_n [of "length (timers h)" m h] by (simp_all add: drain_eq)

lemma constructed_usable:
  "(constructed doc t k (Some p) (Some q) = None) = (\<not> usable doc k)"
  by (simp add: constructed_def ThreeJSAnimator_def usable_def split: option.splits)

lemma constructed_live:
  assumes "constructed doc t k (Some p) (Some q) = Some b" and "doc k = Some cv"
  shows "liveCard cv (addRandomObjects 3 rnd b) \<and>
         color1 (addRandomObjects 3 rnd b) = p \<and> color2 (addRandomObjects 3 rnd b) = q"
proof -
  have "contextAvailable cv"
    using assms constructed_None(2) [of doc k cv t "Some p" "Some q"] by auto
  then show ?thesis
    using created_liveCard [of doc k cv t p q rnd] assms by auto
qed

lemma cardsFrom_keys_set:
  "set (map fst (cardsFrom doc t rnd ts reg)) =
     set (map fst reg) \<union> {k \<in> set (map taskId ts). usable doc k}"
proof (induction ts arbitrary: t rnd reg)
  case Nil
  then show ?case by simp
next
  case (Cons dt ts)
  obtain due c where dt: "dt = (due, CreateCard c)"
    by (cases dt, rename_tac d t, case_tac t) simp
  show ?case
  proof (cases "constructed doc (max t due) (cardId c)
                  (Some (fst (colors c))) (Some (snd (colors c)))")
    case None
    then have "\<not> usable doc (cardId c)"
      by (simp add: constructed_usable)
    then show ?thesis
      using None Cons.IH [of "max t due" rnd reg]
      by (auto simp: dt taskId_def taskConfig_def)
  next
    case (Some b)
    then have "usable doc (cardId c)"
      using constructed_usable [of doc "max t due" "cardId c" "fst (colors c)" "snd (colors c)"]
      by auto
    then show ?thesis
      using Some Cons.IH [of "max t due" "\<lambda>i. rnd (i + 45)"
          "AList.update (cardId c) (addRandomObjects 3 rnd b) reg"]
      by (auto simp: dt taskId_def taskConfig_def update_keys)
  qed
qed

lemma cardsFrom_keys:
  assumes "distinct (map taskId ts)"
    and "\<forall>k \<in> set (map taskId ts). k \<notin> set (map fst reg)"
  shows "map fst (cardsFrom doc t rnd ts reg) =
           map fst reg @ filter (usable doc) (map taskId ts)"
  using assms
proof (induction ts arbitrary: t rnd reg)
  case Nil
  then show ?case by simp
next
  case (Cons dt ts)
  obtain due c where dt: "dt = (due, CreateCard c)"
    by (cases dt, rename_tac d t, case_tac t) simp
  have id: "taskId dt = cardId c"
    by (simp add: dt taskId_def taskConfig_def)
  show ?case
  proof (cases "constructed doc (max t due) (cardId c)
                  (Some (fst (colors c))) (Some (snd (colors c)))")
    case None
    then have u: "\<not> usable doc (cardId c)"
      by (simp add: constructed_usable)
    have "map fst (cardsFrom doc (max t due) rnd ts reg) =
            map fst reg @ filter (usable doc) (map taskId ts)"
      using Cons.prems by (intro Cons.IH) auto
    then show ?thesis
      using None u by (simp add: dt id [unfolded dt])
  next
    case (Some b)
    then have u: "usable doc (cardId c)"
      using constructed_usable [of doc "max t due" "cardId c" "fst (colors c)" "snd (colors c)"]
      by auto
    let ?reg = "AList.update (cardId c) (addRandomObjects 3 rnd b) reg"
    have keys: "map fst ?reg = map fst reg @ [cardId c]"
      using Cons.prems(2) by (simp add: update_keys id)
    have "map fst (cardsFrom doc (max t due) (\<lambda>i. rnd (i + 45)) ts ?reg) =
            map fst ?reg @ filter (usable doc) (map taskId ts)"
      using Cons.prems keys by (intro Cons.IH) (auto simp: id image_iff)
    then show ?thesis
      using Some u keys by (simp add: dt id [unfolded dt])
  qed
qed

lemma cardsFrom_other:
  "k \<notin> set (map taskId ts) \<Longrightarrow>
     map_of (cardsFrom doc t rnd ts reg) k = map_of reg k"
proof (induction ts arbitrary: t rnd reg)
  case Nil
  then show ?case by simp
next
  case (Cons dt ts)
  obtain due c where dt: "dt = (due, CreateCard c)"
    by (cases dt, rename_tac d t, case_tac t) simp
  have ne: "cardId c \<noteq> k" and rest: "k \<notin> set (map taskId ts)"
    using Cons.prems by (auto simp: dt taskId_def taskConfig_def)
  show ?case
    using Cons.IH [OF rest] ne
    by (simp add: dt update_conv' split: option.splits)
qed

lemma cardsFrom_stays_live:
  "map_of reg k = Some b \<Longrightarrow> liveCard cv b \<Longrightarrow> doc k = Some cv \<Longrightarrow>
     \<exists>b'. map_of (cardsFrom doc t rnd ts reg) k = Some b' \<and> liveCard cv b'"
proof (induction ts arbitrary: t rnd reg b)
  case Nil
  then show ?case by simp
next
  case (Cons dt ts)
  obtain due c where dt: "dt = (due, CreateCard c)"
    by (cases dt, rename_tac d t, case_tac t) simp
  show ?case
  proof (cases "constructed doc (max t due) (cardId c)
                  (Some (fst (colors c))) (Some (snd (colors c)))")
    case None
    then show ?thesis
      using Cons.IH [OF Cons.prems] by (simp add: dt)
  next
    case (Some b0)
    let ?v = "addRandomObjects 3 rnd b0"
    let ?reg = "AList.update (cardId c) ?v reg"
    show ?thesis
    proof (cases "cardId c = k")
      case True
      have "liveCard cv ?v"
        using constructed_live [OF Some, of cv rnd] Cons.prems(3) True by simp
      moreover have "map_of ?reg k = Some ?v"
        using True by (simp add: update_conv')
      ultimately show ?thesis
        using Cons.IH [where reg = ?reg and b = ?v] Cons.prems(3) Some by (simp add: dt)
    next
      case False
      then have "map_of ?reg k = Some b"
        using Cons.prems(1) by (simp add: update_conv')
      then show ?thesis
        using Cons.IH [where reg = ?reg and b = b] Cons.prems(2,3) Some by (simp add: dt)
    qed
  qed
qed

lemma cardsFrom_live:
  assumes "dt \<in> set ts" and "doc (taskId dt) = Some cv" and "contextAvailable cv"
  shows "\<exists>b. map_of (cardsFrom doc t rnd ts reg) (taskId dt) = Some b \<and> liveCard cv b"
  using assms(1)
proof (induction ts arbitrary: t rnd reg)
  case Nil
  then show ?case by simp
next
  case (Cons e ts)
  obtain due c where e: "e = (due, CreateCard c)"
    by (cases e, rename_tac d t, case_tac t) simp
  show ?case
  proof (cases "e = dt")
    case True
    have "dt = (due, CreateCard c)"
      using True e by simp
    then have id: "taskId dt = cardId c"
      by (simp add: taskId_def taskConfig_def)
    obtain b0 where b0: "constructed doc (max t due) (cardId c)
                  (Some (fst (colors c))) (Some (snd (colors c))) = Some b0"
      using created_liveCard [of doc "cardId c" cv "max t due" "fst (colors c)" "snd (colors c)"]
        assms(2,3) id by auto
    let ?v = "addRandomObjects 3 rnd b0"
    let ?reg = "AList.update (cardId c) ?v reg"
    have "liveCard cv ?v"
      using constructed_live [OF b0, of cv rnd] assms(2) id by simp
    moreover have "map_of ?reg (taskId dt) = Some ?v"
      by (simp add: update_conv' id)
    ultimately show ?thesis
      using cardsFrom_stays_live [of ?reg "taskId dt" ?v cv doc "max t due" "\<lambda>i. rnd (i + 45)" ts]
        assms(2) b0
      by (simp add: e)
  next
    case False
    then have "dt \<in> set ts"
      using Cons.prems by simp
    then show ?thesis
      using Cons.IH by (simp add: e split: option.splits)
  qed
qed

lemma cardsFrom_palette:
  assumes "(due, CreateCard c) \<in> set ts" and "distinct (map taskId ts)"
    and "doc (cardId c) = Some cv" and "contextAvailable cv"
  shows "\<exists>b. map_of (cardsFrom doc t rnd ts reg) (cardId c) = Some b \<and> liveCard cv b \<and>
             color1 b = fst (colors c) \<and> color2 b = snd (colors c)"
  using assms(1,2)
proof (induction ts arbitrary: t rnd reg)
  case Nil
  then show ?case by simp
next
  case (Cons e ts)
  obtain due' c' where e: "e = (due', CreateCard c')"
    by (cases e, rename_tac d t, case_tac t) simp
  show ?case
  proof (cases "e = (due, CreateCard c)")
    case True
    then have cc: "c' = c" "due' = due"
      using e by simp_all
    obtain b0 where b0: "constructed doc (max t due) (cardId c)
                  (Some (fst (colors c))) (Some (snd (colors c))) = Some b0"
      using created_liveCard [of doc "cardId c" cv "max t due" "fst (colors c)" "snd (colors c)"]
        assms(3,4) by auto
    let ?v = "addRandomObjects 3 rnd b0"
    let ?reg = "AList.update (cardId c) ?v reg"
    have v: "liveCard cv ?v \<and> color1 ?v = fst (colors c) \<and> color2 ?v = snd (colors c)"
      using constructed_live [OF b0, of cv rnd] assms(3) by simp
    have "cardId c \<notin> set (map taskId ts)"
      using Cons.prems(2) by (simp add: e cc taskId_def taskConfig_def)
    then have "map_of (cardsFrom doc (max t due) (\<lambda>i. rnd (i + 45)) ts ?reg) (cardId c) =
               map_of ?reg (cardId c)"
      by (rule cardsFrom_other)
    then show ?thesis
      using v b0 by (simp add: e cc update_conv')
  next
    case False
    then have "(due, CreateCard c) \<in> set ts" and "distinct (map taskId ts)"
      using Cons.prems by simp_all
    then show ?thesis
      using Cons.IH by (simp add: e split: option.splits)
  qed
qed

lemma enqueue_append: "\<forall>u \<in> set us. fst u \<le> fst t \<Longrightarrow> enqueue t us = us @ [t]"
  by (induction us) auto

lemma setTimeout_fields [simp]:
  "document (setTimeout cb d h) = document h"
  "console (setTimeout cb d h) = console h"
  "clock (setTimeout cb d h) = clock h"
  "random (setTimeout cb d h) = random h"
  by (simp_all add: setTimeout_def)

lemma scheduleCards_timers:
  "\<forall>u \<in> set (timers h). fst u \<le> clock h + i * 50 \<Longrightarrow>
     scheduleCards i cs h =
       h\<lparr>timers := timers h @
            map (\<lambda>(j, c). (clock h + j * 50, CreateCard c)) (List.enumerate i cs)\<rparr>"
proof (induction cs arbitrary: i h)
  case Nil
  then show ?case by simp
next
  case (Cons c cs)
  let ?h = "setTimeout (CreateCard c) (i * 50) h"
  have t: "timers ?h = timers h @ [(clock h + i * 50, CreateCard c)]"
    using Cons.prems by (simp add: setTimeout_def enqueue_append)
  have "\<forall>u \<in> set (timers ?h). fst u \<le> clock ?h + Suc i * 50"
    using Cons.prems by (auto simp: t)
  from Cons.IH [OF this] show ?case
    by (simp add: t)
qed

lemma initCardAnimations_timers:
  assumes "timers h = []"
  shows "initCardAnimations (m, h) =
           (m, h\<lparr>timers := map (\<lambda>(j, c). (clock h + j * 50, CreateCard c))
                              (List.enumerate 0 (configs m))\<rparr>)"
  using scheduleCards_timers [of h 0 "configs m"] assms
  by (simp add: initCardAnimations_def)

lemma scheduled_ids:
  "map taskId (map (\<lambda>(j, c). (t + j * 50, CreateCard c)) (List.enumerate i cs)) = map cardId cs"
proof -
  have "map taskId (map (\<lambda>(j, c). (t + j * 50, CreateCard c)) (List.enumerate i cs)) =
        map cardId (map snd (List.enumerate i cs))"
    by (simp add: split_def comp_def taskId_def taskConfig_def del: map_snd_enumerate)
  then show ?thesis
    by (simp only: map_snd_enumerate)
qed

lemma scheduled_logs:
  "concat (map (\<lambda>(due, t). cardLog doc (taskConfig t))
             (map (\<lambda>(j, c). (t0 + j * 50, CreateCard c)) (List.enumerate i cs))) =
   concat (map (cardLog doc) cs)"
proof -
  have "map (\<lambda>(due, t). cardLog doc (taskConfig t))
          (map (\<lambda>(j, c). (t0 + j * 50, CreateCard c)) (List.enumerate i cs)) =
        map (cardLog doc) (map snd (List.enumerate i cs))"
    by (simp add: split_def comp_def taskConfig_def del: map_snd_enumerate)
  then show ?thesis
    by (simp only: map_snd_enumerate)
qed

lemma scheduled_member:
  "c \<in> set cs \<Longrightarrow>
     \<exists>due. (due, CreateCard c) \<in> set (map (\<lambda>(j, c). (t + j * 50, CreateCard c)) (List.enumerate i cs))"
proof (induction cs arbitrary: i)
  case Nil
  then show ?case by simp
next
  case (Cons a cs)
  then show ?case by (cases "c = a") auto
qed

lemma three_way_count:
  "length (filter (usable doc) (map cardId cs)) =
     length cs - length (filter (\<lambda>c. doc (cardId c) = None) cs)
               - length (filter (\<lambda>c. contextFails doc (cardId c)) cs)"
proof -
  have "length (filter (usable doc) (map cardId cs)) +
        length (filter (\<lambda>c. doc (cardId c) = None) cs) +
        length (filter (\<lambda>c. contextFails doc (cardId c)) cs) = length cs"
    by (induction cs) (auto simp: usable_def contextFails_def split: option.splits)
  then show ?thesis by simp
qed

text \<open>
  Claim C5, as the code has it. \<^verbatim>\<open>initCardAnimations()\<close> over \<open>K\<close> configurations with
  distinct ids, none of them registered yet, with no other timer pending: once all
  timers have fired no timer is left, and the registry is the earlier entries followed
  by one instance for each usable id, in configuration order. Each of these instances
  is constructed on its canvas with the colours of its configuration, plays, and has
  three objects. Their number is \<open>K - M - F\<close>, for \<open>M\<close> ids without canvas and \<open>F\<close> ids
  whose canvas cannot get a rendering context; the console has one warning for each
  of the \<open>M\<close> and the library's output and one error for each of the \<open>F\<close>, in
  configuration order. No failure keeps a later card from being created.
\<close>

theorem card_initialisation_skips_failures:
  assumes "configs m = cs"
    and "distinct (map cardId cs)"
    and "\<forall>c \<in> set cs. cardId c \<notin> set (map fst (animators m))"
    and "timers h = []"
  shows "timers (snd (drain (initCardAnimations (m, h)))) = [] \<and>
         animators (fst (drain (initCardAnimations (m, h)))) =
           cardsFrom (document h) (clock h) (random h)
             (map (\<lambda>(j, c). (clock h + j * 50, CreateCard c)) (List.enumerate 0 cs))
             (animators m) \<and>
         map fst (animators (fst (drain (initCardAnimations (m, h))))) =
           map fst (animators m) @ filter (usable (document h)) (map cardId cs) \<and>
         length (animators (fst (drain (initCardAnimations (m, h))))) =
           length (animators m) +
           (length cs - length (filter (\<lambda>c. document h (cardId c) = None) cs)
                      - length (filter (\<lambda>c. contextFails (document h) (cardId c)) cs)) \<and>
         (\<forall>c \<in> set cs. \<forall>cv. document h (cardId c) = Some cv \<and> contextAvailable cv \<longrightarrow>
            (\<exists>b. map_of (animators (fst (drain (initCardAnimations (m, h))))) (cardId c) = Some b \<and>
                 liveCard cv b \<and> color1 b = fst (colors c) \<and> color2 b = snd (colors c))) \<and>
         (\<forall>k. k \<notin> set (map cardId cs) \<longrightarrow>
            map_of (animators (fst (drain (initCardAnimations (m, h))))) k =
            map_of (animators m) k) \<and>
         console (snd (drain (initCardAnimations (m, h)))) =
           console h @ concat (map (cardLog (document h)) cs)"
proof -
  let ?ts = "map (\<lambda>(j, c). (clock h + j * 50, CreateCard c)) (List.enumerate 0 cs)"
  let ?h = "h\<lparr>timers := ?ts\<rparr>"
  let ?S = "drain (initCardAnimations (m, h))"
  have init: "initCardAnimations (m, h) = (m, ?h)"
    using initCardAnimations_timers [OF assms(4), of m] assms(1) by simp
  have ids: "map taskId ?ts = map cardId cs"
    by (rule scheduled_ids)
  have reg: "animators (fst ?S) = cardsFrom (document h) (clock h) (random h) ?ts (animators m)"
    unfolding init using drain_result(1) [of m ?h] by simp
  have tm: "timers (snd ?S) = []"
    unfolding init by (rule drain_result(2))
  have con: "console (snd ?S) = console h @ concat (map (cardLog (document h)) cs)"
  proof -
    have "console (snd (drain (m, ?h))) =
            console h @ concat (map (\<lambda>(due, t). cardLog (document h) (taskConfig t)) ?ts)"
      using drain_result(3) [of m ?h] by (simp del: map_map)
    then show ?thesis
      unfolding init by (simp only: scheduled_logs)
  qed
  have d: "distinct (map taskId ?ts)"
    using assms(2) by (simp only: ids)
  have fresh: "\<forall>k \<in> set (map taskId ?ts). k \<notin> set (map fst (animators m))"
    using assms(3) by (simp only: ids) auto
  have keys: "map fst (animators (fst ?S)) =
                map fst (animators m) @ filter (usable (document h)) (map cardId cs)"
    unfolding reg using cardsFrom_keys [OF d fresh] by (simp only: ids)
  have len: "length (animators (fst ?S)) =
           length (animators m) +
           (length cs - length (filter (\<lambda>c. document h (cardId c) = None) cs)
                      - length (filter (\<lambda>c. contextFails (document h) (cardId c)) cs))"
    using arg_cong [OF keys, of length] three_way_count [of "document h" cs] by simp
  have live: "\<forall>c \<in> set cs. \<forall>cv. document h (cardId c) = Some cv \<and> contextAvailable cv \<longrightarrow>
            (\<exists>b. map_of (animators (fst ?S)) (cardId c) = Some b \<and>
                 liveCard cv b \<and> color1 b = fst (colors c) \<and> color2 b = snd (colors c))"
  proof (intro ballI allI impI)
    fix c cv
    assume c: "c \<in> set cs" and cv: "document h (cardId c) = Some cv \<and> contextAvailable cv"
    obtain due where "(due, CreateCard c) \<in> set ?ts"
      using scheduled_member [OF c] by blast
    then show "\<exists>b. map_of (animators (fst ?S)) (cardId c) = Some b \<and>
                 liveCard cv b \<and> color1 b = fst (colors c) \<and> color2 b = snd (colors c)"
      unfolding reg using cardsFrom_palette [OF _ d] cv by blast
  qed
  have other: "\<forall>k. k \<notin> set (map cardId cs) \<longrightarrow>
            map_of (animators (fst ?S)) k = map_of (animators m) k"
    unfolding reg using cardsFrom_other [of _ ?ts] by (simp only: ids) blast
  show ?thesis
    by (intro conjI tm reg keys len live other con)
qed

lemma cardConfigs_ids:
  "map cardId cardConfigs =
     [''about-canvas-1'', ''about-canvas-2'', ''about-canvas-3'', ''services-canvas-1'',
      ''services-canvas-2'', ''services-canvas-3'', ''services-canvas-4'',
      ''collections-canvas-1'', ''collections-canvas-2'', ''collections-canvas-3'',
      ''testimonials-canvas-1'', ''testimonials-canvas-2'', ''testimonials-canvas-3'',
      ''events-canvas-1'', ''events-canvas-2'', ''faq-canvas-1'', ''faq-canvas-2'',
      ''careers-canvas-1'', ''careers-canvas-2'', ''contact-canvas-1'', ''contact-canvas-2'']"
  by (simp add: cardConfigs_def)

lemma cardConfigs_distinct: "distinct (map cardId cardConfigs)"
  unfolding cardConfigs_ids by simp

lemma newManager_fields:
  "configs newManager = cardConfigs" "animators newManager = []"
  by (simp_all add: newManager_def)

lemma brokenHost_fields:
  "document brokenHost = [''about-canvas-2'' \<mapsto> brokenCanvas]" "timers brokenHost = []"
  "console brokenHost = []"
  by (simp_all add: brokenHost_def demoHost_def)

lemma brokenHost_counts:
  "length (filter (\<lambda>c. document brokenHost (cardId c) = None) cardConfigs) = 20"
  "filter (usable (document brokenHost)) (map cardId cardConfigs) = []"
  unfolding brokenHost_fields
  by (simp_all add: cardConfigs_def usable_def brokenCanvas_def)

text \<open>Claim C5 as stated fails: of the 21 configurations 20 have no canvas, the one canvas
  that exists cannot get a rendering context, and nothing is registered although
  \<open>K - M = 1\<close>.\<close>

theorem context_failure_registers_nothing:
  "length cardConfigs = 21 \<and>
   length (filter (\<lambda>c. document brokenHost (cardId c) = None) cardConfigs) = 20 \<and>
   animators (fst (drain (initCardAnimations (newManager, brokenHost)))) = [] \<and>
   length (animators (fst (drain (initCardAnimations (newManager, brokenHost))))) \<noteq>
     length cardConfigs -
     length (filter (\<lambda>c. document brokenHost (cardId c) = None) cardConfigs)"
proof -
  let ?ts = "map (\<lambda>(j, c). (clock brokenHost + j * 50, CreateCard c)) (List.enumerate 0 cardConfigs)"
  have init: "initCardAnimations (newManager, brokenHost) = (newManager, brokenHost\<lparr>timers := ?ts\<rparr>)"
    using initCardAnimations_timers [OF brokenHost_fields(2), of newManager]
    by (simp add: newManager_fields)
  have d: "distinct (map taskId ?ts)"
    by (simp only: scheduled_ids cardConfigs_distinct)
  have "map fst (animators (fst (drain (initCardAnimations (newManager, brokenHost))))) =
          filter (usable (document brokenHost)) (map taskId ?ts)"
    unfolding init using drain_result(1) [of newManager "brokenHost\<lparr>timers := ?ts\<rparr>"]
      cardsFrom_keys [OF d, of "[]" "document brokenHost" "clock brokenHost" "random brokenHost"]
    by (simp add: newManager_fields)
  then have e: "animators (fst (drain (initCardAnimations (newManager, brokenHost)))) = []"
    by (simp only: scheduled_ids brokenHost_counts(2)) simp
  have n: "length cardConfigs = 21"
    by (simp add: cardConfigs_def)
  show ?thesis
    by (simp add: e n brokenHost_counts(1))
qed

lemma mixedHost_fields:
  "document mixedHost = demoDocument(''about-canvas-2'' \<mapsto> brokenCanvas)"
  "timers mixedHost = []" "console mixedHost = []"
  by (simp_all add: mixedHost_def demoHost_def)

lemma mixedHost_counts:
  "length (filter (\<lambda>c. document mixedHost (cardId c) = None) cardConfigs) = 19"
  "length (filter (\<lambda>c. contextFails (document mixedHost) (cardId c)) cardConfigs) = 1"
  "filter (usable (document mixedHost)) (map cardId cardConfigs) = [''about-canvas-1'']"
  "concat (map (cardLog (document mixedHost)) cardConfigs) =
     failureLog brokenCanvas @ [Error (failedMessage ''about-canvas-2'')] @
     map (\<lambda>c. Warn (notFoundMessage (cardId c))) (drop 2 cardConfigs)"
  unfolding mixedHost_fields
  by (simp_all add: cardConfigs_def usable_def contextFails_def cardLog_def brokenCanvas_def
      demoDocument_def demoCanvas_def)

text \<open>The 21 configurations of the source on a document whose first canvas is usable and
  whose second canvas cannot get a rendering context.\<close>

theorem card_initialisation_skips_failures_witness:
  "configs newManager = cardConfigs \<and> distinct (map cardId cardConfigs) \<and>
   timers mixedHost = [] \<and> length cardConfigs = 21 \<and>
   length (filter (\<lambda>c. document mixedHost (cardId c) = None) cardConfigs) = 19 \<and>
   length (filter (\<lambda>c. contextFails (document mixedHost) (cardId c)) cardConfigs) = 1 \<and>
   map fst (animators (fst (drain (initCardAnimations (newManager, mixedHost))))) =
     [''about-canvas-1''] \<and>
   (\<exists>b. map_of (animators (fst (drain (initCardAnimations (newManager, mixedHost)))))
           ''about-canvas-1'' = Some b \<and>
        liveCard demoCanvas b \<and> color1 b = 0x00FFFF \<and> color2 b = 0x6600CC) \<and>
   console (snd (drain (initCardAnimations (newManager, mixedHost)))) =
     failureLog brokenCanvas @ [Error (failedMessage ''about-canvas-2'')] @
     map (\<lambda>c. Warn (notFoundMessage (cardId c))) (drop 2 cardConfigs) \<and>
   timers (snd (drain (initCardAnimations (newManager, mixedHost)))) = []"
proof -
  have 3: "\<forall>c \<in> set cardConfigs. cardId c \<notin> set (map fst (animators newManager))"
    by (simp add: newManager_fields)
  note th = card_initialisation_skips_failures
    [OF newManager_fields(1) cardConfigs_distinct 3 mixedHost_fields(2)]
  have first: "\<lparr>cardId = ''about-canvas-1'', colors = (0x00FFFF, 0x6600CC)\<rparr> \<in> set cardConfigs"
    by (simp add: cardConfigs_def)
  have cv: "document mixedHost ''about-canvas-1'' = Some demoCanvas \<and> contextAvailable demoCanvas"
    unfolding mixedHost_fields by (simp add: demoDocument_def demoCanvas_def)
  have live: "\<exists>b. map_of (animators (fst (drain (initCardAnimations (newManager, mixedHost)))))
           ''about-canvas-1'' = Some b \<and>
        liveCard demoCanvas b \<and> color1 b = 0x00FFFF \<and> color2 b = 0x6600CC"
    using th [THEN conjunct2, THEN conjunct2, THEN conjunct2, THEN conjunct2, THEN conjunct1]
      first cv by fastforce
  have keys: "map fst (animators (fst (drain (initCardAnimations (newManager, mixedHost))))) =
     [''about-canvas-1'']"
    using th [THEN conjunct2, THEN conjunct2, THEN conjunct1]
    by (simp only: newManager_fields(2) list.map append_Nil mixedHost_counts(3))
  have con: "console (snd (drain (initCardAnimations (newManager, mixedHost)))) =
     failureLog brokenCanvas @ [Error (failedMessage ''about-canvas-2'')] @
     map (\<lambda>c. Warn (notFoundMessage (cardId c))) (drop 2 cardConfigs)"
    using th [THEN conjunct2, THEN conjunct2, THEN conjunct2, THEN conjunct2, THEN conjunct2,
        THEN conjunct2]
    by (simp only: mixedHost_fields(3) mixedHost_counts(4) append_Nil)
  have tm: "timers (snd (drain (initCardAnimations (newManager, mixedHost)))) = []"
    using th [THEN conjunct1] .
  have n: "length cardConfigs = 21"
    by (simp add: cardConfigs_def)
  show ?thesis
    by (intro conjI newManager_fields(1) cardConfigs_distinct mixedHost_fields(2) n
        mixedHost_counts(1) mixedHost_counts(2) keys live con tm)
qed

subsection \<open>Disposing the manager\<close>

lemma managerDispose_all:
  "list_all (\<lambda>b. \<not> isPlaying b \<and> objects b = [] \<and> rendererDisposed (renderer b))
     (fst (managerDispose m))"
  by (simp add: managerDispose_def list_all_iff split_def)

lemma dispose_frameQueue: "frameInv a \<Longrightarrow> frameQueue (dispose a) = []"
  by (rule frameInv_paused [OF dispose_frameInv]) simp_all

lemma liveCard_frameInv: "liveCard cv b \<Longrightarrow> frameInv b"
  by (simp add: liveCard_def frameInv_def)

lemma disposePool_eq: "disposePool (m, h) = (m\<lparr>animators := []\<rparr>, h)"
  by (simp add: disposePool_def managerDispose_def)

text \<open>
  Claim C2, as the code has it. \<^verbatim>\<open>AnimationManager.dispose()\<close> disposes every registered
  instance (each is left paused and without objects, its renderer disposed, and
  without pending frame request when it had at most its own) and leaves the map
  empty. It leaves every pending timer pending: after any number \<open>n\<close> of them have
  fired, and after all of them have, the registry is what these timers create from an
  empty registry. So after all have fired the registered ids are exactly the usable
  ids of the pending timers, and every pending timer with a usable canvas has an
  instance registered under its id that plays and has three objects.
\<close>

theorem pool_dispose_keeps_timers:
  "animators (fst (disposePool (m, h))) = [] \<and>
   managerDispose m =
     (map (\<lambda>(k, a). dispose a) (animators m), fst (disposePool (m, h))) \<and>
   list_all (\<lambda>b. \<not> isPlaying b \<and> objects b = [] \<and> rendererDisposed (renderer b))
     (fst (managerDispose m)) \<and>
   (\<forall>(k, a) \<in> set (animators m). frameInv a \<longrightarrow> frameQueue (dispose a) = []) \<and>
   timers (snd (disposePool (m, h))) = timers h \<and>
   animators (fst ((fireNext ^^ n) (disposePool (m, h)))) =
     cardsFrom (document h) (clock h) (random h) (take n (timers h)) [] \<and>
   timers (snd ((fireNext ^^ n) (disposePool (m, h)))) = drop n (timers h) \<and>
   animators (fst (drain (disposePool (m, h)))) =
     cardsFrom (document h) (clock h) (random h) (timers h) [] \<and>
   set (map fst (animators (fst (drain (disposePool (m, h)))))) =
     {k \<in> set (map taskId (timers h)). usable (document h) k} \<and>
   (\<forall>dt \<in> set (timers h). \<forall>cv.
      document h (taskId dt) = Some cv \<and> contextAvailable cv \<longrightarrow>
      (\<exists>b. map_of (animators (fst (drain (disposePool (m, h))))) (taskId dt) = Some b \<and>
           liveCard cv b))"
proof -
  let ?m = "m\<lparr>animators := []\<rparr>"
  have 1: "animators (fst (disposePool (m, h))) = []"
    by (simp add: disposePool_eq)
  have 2: "managerDispose m =
     (map (\<lambda>(k, a). dispose a) (animators m), fst (disposePool (m, h)))"
    by (simp add: managerDispose_def disposePool_def)
  have 4: "\<forall>(k, a) \<in> set (animators m). frameInv a \<longrightarrow> frameQueue (dispose a) = []"
    by (auto simp: dispose_frameQueue)
  have 5: "timers (snd (disposePool (m, h))) = timers h"
    by (simp add: disposePool_eq)
  have 6: "animators (fst ((fireNext ^^ n) (disposePool (m, h)))) =
     cardsFrom (document h) (clock h) (random h) (take n (timers h)) []"
    unfolding disposePool_eq using fire_n [of n ?m h] by simp
  have 7: "timers (snd ((fireNext ^^ n) (disposePool (m, h)))) = drop n (timers h)"
    unfolding disposePool_eq using fire_n [of n ?m h] by simp
  have 8: "animators (fst (drain (disposePool (m, h)))) =
     cardsFrom (document h) (clock h) (random h) (timers h) []"
    unfolding disposePool_eq using drain_result(1) [of ?m h] by simp
  have 9: "set (map fst (animators (fst (drain (disposePool (m, h)))))) =
     {k \<in> set (map taskId (timers h)). usable (document h) k}"
    unfolding 8 cardsFrom_keys_set by simp
  have 10: "\<forall>dt \<in> set (timers h). \<forall>cv.
      document h (taskId dt) = Some cv \<and> contextAvailable cv \<longrightarrow>
      (\<exists>b. map_of (animators (fst (drain (disposePool (m, h))))) (taskId dt) = Some b \<and>
           liveCard cv b)"
    unfolding 8 using cardsFrom_live by blast
  show ?thesis
    by (intro conjI 1 2 managerDispose_all 4 5 6 7 8 9 10)
qed

lemma twoCanvasHost_fields:
  "document twoCanvasHost = demoDocument(''about-canvas-3'' \<mapsto> thirdCanvas)"
  "timers twoCanvasHost = []" "clock twoCanvasHost = 0"
  by (simp_all add: twoCanvasHost_def demoHost_def)

lemma twoCanvas_lookup:
  "document twoCanvasHost ''about-canvas-1'' = Some demoCanvas"
  "document twoCanvasHost ''about-canvas-3'' = Some thirdCanvas"
  "contextAvailable demoCanvas" "contextAvailable thirdCanvas"
  "filter (usable (document twoCanvasHost)) (take 1 (map cardId cardConfigs)) = [''about-canvas-1'']"
  "filter (usable (document twoCanvasHost)) (drop 1 (map cardId cardConfigs)) = [''about-canvas-3'']"
  "filter (usable (document twoCanvasHost)) (take 1 (drop 1 (map cardId cardConfigs))) = []"
  "filter (usable (document twoCanvasHost)) (take 2 (drop 1 (map cardId cardConfigs))) =
     [''about-canvas-3'']"
  unfolding twoCanvasHost_fields cardConfigs_ids
  by (simp_all add: usable_def demoDocument_def demoCanvas_def thirdCanvas_def)

lemma runningPool_facts:
  "animators (fst runningPool) =
     cardsFrom (document twoCanvasHost) 0 (random twoCanvasHost)
       (take 1 (map (\<lambda>(j, c). (0 + j * 50, CreateCard c)) (List.enumerate 0 cardConfigs))) []"
  "timers (snd runningPool) =
     drop 1 (map (\<lambda>(j, c). (0 + j * 50, CreateCard c)) (List.enumerate 0 cardConfigs))"
  "document (snd runningPool) = document twoCanvasHost"
proof -
  let ?ts = "map (\<lambda>(j, c). (0 + j * 50, CreateCard c)) (List.enumerate 0 cardConfigs)"
  have init: "initCardAnimations (newManager, twoCanvasHost) =
                (newManager, twoCanvasHost\<lparr>timers := ?ts\<rparr>)"
    using initCardAnimations_timers [OF twoCanvasHost_fields(2), of newManager]
    by (simp only: newManager_fields(1) twoCanvasHost_fields(3))
  have rp: "runningPool = (fireNext ^^ 1) (newManager, twoCanvasHost\<lparr>timers := ?ts\<rparr>)"
    by (simp add: runningPool_def init)
  note f = fire_n [of 1 newManager "twoCanvasHost\<lparr>timers := ?ts\<rparr>"]
  show "animators (fst runningPool) =
     cardsFrom (document twoCanvasHost) 0 (random twoCanvasHost) (take 1 ?ts) []"
    unfolding rp using f [THEN conjunct1]
    by (simp add: newManager_fields(2) twoCanvasHost_fields(3) del: funpow.simps take_map)
  show "timers (snd runningPool) = drop 1 ?ts"
    unfolding rp using f [THEN conjunct2, THEN conjunct2, THEN conjunct1]
    by (simp del: funpow.simps drop_map)
  show "document (snd runningPool) = document twoCanvasHost"
    unfolding rp using f [THEN conjunct2, THEN conjunct2, THEN conjunct2, THEN conjunct1]
    by (simp del: funpow.simps)
qed

lemma runningPool_ids:
  "map taskId (take 1 (map (\<lambda>(j, c). (0 + j * 50, CreateCard c)) (List.enumerate 0 cardConfigs))) =
     take 1 (map cardId cardConfigs)"
  "map taskId (timers (snd runningPool)) = drop 1 (map cardId cardConfigs)"
  "map taskId (take n (timers (snd runningPool))) = take n (drop 1 (map cardId cardConfigs))"
  unfolding runningPool_facts(2)
  by (simp_all only: take_map [symmetric] drop_map [symmetric] scheduled_ids)

lemma runningPool_registry:
  "map fst (animators (fst runningPool)) = [''about-canvas-1'']"
proof -
  have d: "distinct (take 1 (map cardId cardConfigs))"
    by (rule distinct_take [OF cardConfigs_distinct])
  show ?thesis
    unfolding runningPool_facts(1)
    using cardsFrom_keys [of "take 1 (map (\<lambda>(j, c). (0 + j * 50, CreateCard c)) (List.enumerate 0 cardConfigs))"
        "[]" "document twoCanvasHost" 0 "random twoCanvasHost"] d
    by (simp only: runningPool_ids(1) twoCanvas_lookup(5)) simp
qed

lemma after_dispose_keys:
  "map fst (animators (fst ((fireNext ^^ n) (disposePool runningPool)))) =
     filter (usable (document twoCanvasHost)) (take n (drop 1 (map cardId cardConfigs)))"
proof -
  have d: "distinct (take n (drop 1 (map cardId cardConfigs)))"
    by (intro distinct_take distinct_drop cardConfigs_distinct)
  have "animators (fst ((fireNext ^^ n) (disposePool runningPool))) =
          cardsFrom (document twoCanvasHost) (clock (snd runningPool)) (random (snd runningPool))
            (take n (timers (snd runningPool))) []"
    using fire_n [of n "(fst runningPool)\<lparr>animators := []\<rparr>" "snd runningPool"]
      disposePool_eq [of "fst runningPool" "snd runningPool"]
    by (simp add: runningPool_facts(3))
  then show ?thesis
    using cardsFrom_keys [of "take n (timers (snd runningPool))" "[]" "document twoCanvasHost"
        "clock (snd runningPool)" "random (snd runningPool)"] d
    by (simp only: runningPool_ids(3)) simp
qed

lemma after_dispose_drain_keys:
  "map fst (animators (fst (drain (disposePool runningPool)))) = [''about-canvas-3'']"
proof -
  have "drain (disposePool runningPool) =
          (fireNext ^^ length (timers (snd runningPool))) (disposePool runningPool)"
    using disposePool_eq [of "fst runningPool" "snd runningPool"]
    by (simp add: drain_def)
  moreover have "length (timers (snd runningPool)) = 20"
    using arg_cong [OF runningPool_ids(2), of length] by (simp add: cardConfigs_def)
  ultimately show ?thesis
    using after_dispose_keys [of 20] twoCanvas_lookup(6) by (simp add: cardConfigs_ids)
qed

text \<open>Claim C2 as stated fails: \<^verbatim>\<open>dispose()\<close> empties a registry that held one instance,
  timers are still pending, and when they fire the third card is created and
  registered.\<close>

theorem creation_proceeds_after_pool_dispose:
  "map fst (animators (fst runningPool)) = [''about-canvas-1''] \<and>
   animators (fst (disposePool runningPool)) = [] \<and>
   timers (snd (disposePool runningPool)) \<noteq> [] \<and>
   map fst (animators (fst ((fireNext ^^ 2) (disposePool runningPool)))) = [''about-canvas-3''] \<and>
   map fst (animators (fst (drain (disposePool runningPool)))) = [''about-canvas-3''] \<and>
   animators (fst (drain (disposePool runningPool))) \<noteq> []"
proof -
  have 2: "animators (fst (disposePool runningPool)) = []"
    using disposePool_eq [of "fst runningPool" "snd runningPool"] by simp
  have "length (timers (snd (disposePool runningPool))) = 20"
    using arg_cong [OF runningPool_ids(2), of length]
      disposePool_eq [of "fst runningPool" "snd runningPool"]
    by (simp add: cardConfigs_def)
  then have 3: "timers (snd (disposePool runningPool)) \<noteq> []"
    by auto
  have 4: "map fst (animators (fst ((fireNext ^^ 2) (disposePool runningPool)))) = [''about-canvas-3'']"
    unfolding after_dispose_keys by (rule twoCanvas_lookup(8))
  have 6: "animators (fst (drain (disposePool runningPool))) \<noteq> []"
    using after_dispose_drain_keys by auto
  show ?thesis
    by (intro conjI runningPool_registry 2 3 4 after_dispose_drain_keys 6)
qed

lemma runningPool_first:
  "\<exists>b. animators (fst runningPool) = [(''about-canvas-1'', b)] \<and> liveCard demoCanvas b"
proof -
  let ?ts = "take 1 (map (\<lambda>(j, c). (0 + j * 50, CreateCard c)) (List.enumerate 0 cardConfigs))"
  let ?dt = "(0 :: nat, CreateCard \<lparr>cardId = ''about-canvas-1'', colors = (0x00FFFF, 0x6600CC)\<rparr>)"
  have m: "?dt \<in> set ?ts"
    by (simp add: cardConfigs_def)
  have i: "taskId ?dt = ''about-canvas-1''"
    by (simp add: taskId_def taskConfig_def)
  obtain b where b: "map_of (animators (fst runningPool)) ''about-canvas-1'' = Some b"
    "liveCard demoCanvas b"
    unfolding runningPool_facts(1)
    using cardsFrom_live [OF m, of "document twoCanvasHost" demoCanvas 0 "random twoCanvasHost" "[]"]
      twoCanvas_lookup(1,3)
    by (auto simp only: i)
  obtain kb where kb: "animators (fst runningPool) = [kb]"
    using runningPool_registry by (cases "animators (fst runningPool)") auto
  then have "kb = (''about-canvas-1'', b)"
    using runningPool_registry b(1) by (cases kb) simp
  then show ?thesis
    using kb b(2) by simp
qed

text \<open>The manager with the first card registered and playing: \<^verbatim>\<open>dispose()\<close> disposes it,
  the next timer finds no canvas, the one after it registers the third card.\<close>

theorem pool_dispose_keeps_timers_witness:
  "(\<exists>b. animators (fst runningPool) = [(''about-canvas-1'', b)] \<and> liveCard demoCanvas b \<and>
        fst (managerDispose (fst runningPool)) = [dispose b] \<and>
        \<not> isPlaying (dispose b) \<and> objects (dispose b) = [] \<and>
        frameQueue (dispose b) = [] \<and> rendererDisposed (renderer (dispose b))) \<and>
   animators (fst (disposePool runningPool)) = [] \<and>
   length (timers (snd (disposePool runningPool))) = 20 \<and>
   animators (fst ((fireNext ^^ 1) (disposePool runningPool))) = [] \<and>
   map fst (animators (fst ((fireNext ^^ 2) (disposePool runningPool)))) = [''about-canvas-3''] \<and>
   map fst (animators (fst (drain (disposePool runningPool)))) = [''about-canvas-3''] \<and>
   (\<exists>b. map_of (animators (fst (drain (disposePool runningPool)))) ''about-canvas-3'' = Some b \<and>
        liveCard thirdCanvas b)"
proof -
  note th = pool_dispose_keeps_timers [of "fst runningPool" "snd runningPool" 1, unfolded prod.collapse]
  obtain b where b: "animators (fst runningPool) = [(''about-canvas-1'', b)]"
    "liveCard demoCanvas b"
    using runningPool_first by blast
  have disposed: "fst (managerDispose (fst runningPool)) = [dispose b]"
    using arg_cong [OF th [THEN conjunct2, THEN conjunct1], of fst] by (simp add: b(1))
  have q: "frameQueue (dispose b) = []"
    using th [THEN conjunct2, THEN conjunct2, THEN conjunct2, THEN conjunct1]
      liveCard_frameInv [OF b(2)]
    by (simp add: b(1))
  have A: "\<exists>b. animators (fst runningPool) = [(''about-canvas-1'', b)] \<and> liveCard demoCanvas b \<and>
        fst (managerDispose (fst runningPool)) = [dispose b] \<and>
        \<not> isPlaying (dispose b) \<and> objects (dispose b) = [] \<and>
        frameQueue (dispose b) = [] \<and> rendererDisposed (renderer (dispose b))"
    using b disposed q by simp
  have B: "animators (fst (disposePool runningPool)) = []"
    by (rule th [THEN conjunct1])
  have "timers (snd (disposePool runningPool)) = timers (snd runningPool)"
    by (rule th [THEN conjunct2, THEN conjunct2, THEN conjunct2, THEN conjunct2, THEN conjunct1])
  then have C: "length (timers (snd (disposePool runningPool))) = 20"
    using arg_cong [OF runningPool_ids(2), of length] by (simp add: cardConfigs_def)
  have "map fst (animators (fst ((fireNext ^^ 1) (disposePool runningPool)))) = []"
    unfolding after_dispose_keys by (rule twoCanvas_lookup(7))
  then have D: "animators (fst ((fireNext ^^ 1) (disposePool runningPool))) = []"
    by simp
  have E: "map fst (animators (fst ((fireNext ^^ 2) (disposePool runningPool)))) = [''about-canvas-3'']"
    unfolding after_dispose_keys by (rule twoCanvas_lookup(8))
  let ?dt = "(100 :: nat, CreateCard \<lparr>cardId = ''about-canvas-3'', colors = (0xFFFF00, 0xFF6600)\<rparr>)"
  have m: "?dt \<in> set (timers (snd runningPool))"
    unfolding runningPool_facts(2) by (simp add: cardConfigs_def)
  have i: "taskId ?dt = ''about-canvas-3''"
    by (simp add: taskId_def taskConfig_def)
  have G: "\<exists>b. map_of (animators (fst (drain (disposePool runningPool)))) ''about-canvas-3'' = Some b \<and>
        liveCard thirdCanvas b"
    using th [THEN conjunct2, THEN conjunct2, THEN conjunct2, THEN conjunct2, THEN conjunct2,
        THEN conjunct2, THEN conjunct2, THEN conjunct2, THEN conjunct2, rule_format, OF m,
        of thirdCanvas]
      twoCanvas_lookup(2,4)
    by (simp only: i runningPool_facts(3))
  show ?thesis
    by (intro conjI A B C D E after_dispose_drain_keys G)
qed

end
